theory Spec2Isabelle
  imports Main "HOL-Library.Word"
begin

section \<open>Values shared by both components\<close>

text \<open>
  A \<^verbatim>\<open>Uint8Array\<close> is a list of bytes. A JavaScript string is a list of 16-bit code
  units (\<^verbatim>\<open>charCodeAt\<close> reads one of them); \<open>str\<close> embeds an ASCII literal.
  Names of XML elements and the namespace are constants of the program and are kept as
  Isabelle strings.
\<close>

type_synonym byte = "8 word"
type_synonym bytes = "byte list"
type_synonym char16 = "16 word"
type_synonym jsstring = "char16 list"

definition str :: "string \<Rightarrow> jsstring" where
  "str s = map of_char s"

text \<open>
  The errors the two source files raise themselves (\<^verbatim>\<open>XE.PARAM_REQUIRED\<close>,
  \<^verbatim>\<open>XE.METHOD_NOT_SUPPORTED\<close>, \<^verbatim>\<open>XE.METHOD_NOT_IMPLEMENTED\<close>), the ones of the XML
  base class and of the codec, JavaScript's own \<^verbatim>\<open>TypeError\<close> (a property read on
  \<^verbatim>\<open>undefined\<close>) and \<^verbatim>\<open>URIError\<close>, and an opaque failure of an external collaborator.
\<close>

datatype error =
    PARAM_REQUIRED string
  | METHOD_NOT_SUPPORTED
  | METHOD_NOT_IMPLEMENTED
  | ELEMENT_MALFORMED string
  | ELEMENT_MISSING string
  | TypeError
  | URIError
  | InvalidCharacterError
  | NULL_PARAM string
  | ProviderFailure string

section \<open>The codec (\<^verbatim>\<open>Convert\<close>)\<close>

subsection \<open>Base64\<close>

text \<open>
  Modelled from the spec: \<^verbatim>\<open>Convert.ToBase64\<close> and \<^verbatim>\<open>Convert.FromBase64\<close> belong to the
  external codec and are absent from the sources. The spec (section 6) lists
  "base64 encode/decode" and requires that "every byte-valued field is base64-text on
  the wire and must round-trip to the identical bytes". The model is the standard
  alphabet with \<open>=\<close> padding: three bytes give four characters; a text that is not
  made of complete, correctly padded groups of four is refused.
\<close>

definition b64_char :: "nat \<Rightarrow> char16" where
  "b64_char s =
     (if s < 26 then of_nat (65 + s)
      else if s < 52 then of_nat (71 + s)
      else if s < 62 then of_nat (s - 4)
      else if s = 62 then 43
      else 47)"

definition b64_sextet :: "char16 \<Rightarrow> nat option" where
  "b64_sextet c =
     (let n = unat c in
      if 65 \<le> n \<and> n \<le> 90 then Some (n - 65)
      else if 97 \<le> n \<and> n \<le> 122 then Some (n - 71)
      else if 48 \<le> n \<and> n \<le> 57 then Some (n + 4)
      else if n = 43 then Some 62
      else if n = 47 then Some 63
      else None)"

definition b64_pad :: char16 where
  "b64_pad = 61"

fun ToBase64 :: "bytes \<Rightarrow> jsstring" where
  "ToBase64 [] = []"
| "ToBase64 [a] =
     [b64_char (unat a div 4), b64_char ((unat a mod 4) * 16), b64_pad, b64_pad]"
| "ToBase64 [a, b] =
     [b64_char (unat a div 4), b64_char ((unat a mod 4) * 16 + unat b div 16),
      b64_char ((unat b mod 16) * 4), b64_pad]"
| "ToBase64 (a # b # c # rest) =
     [b64_char (unat a div 4), b64_char ((unat a mod 4) * 16 + unat b div 16),
      b64_char ((unat b mod 16) * 4 + unat c div 64), b64_char (unat c mod 64)]
     @ ToBase64 rest"

definition b64_byte1 :: "nat \<Rightarrow> nat \<Rightarrow> byte" where
  "b64_byte1 x y = of_nat (x * 4 + y div 16)"

definition b64_byte2 :: "nat \<Rightarrow> nat \<Rightarrow> byte" where
  "b64_byte2 y z = of_nat ((y mod 16) * 16 + z div 4)"

definition b64_byte3 :: "nat \<Rightarrow> nat \<Rightarrow> byte" where
  "b64_byte3 z w = of_nat ((z mod 4) * 64 + w)"

fun b64_decode :: "jsstring \<Rightarrow> bytes option" where
  "b64_decode [] = Some []"
| "b64_decode (a # b # c # d # rest) =
     (case (b64_sextet a, b64_sextet b) of
        (Some x, Some y) \<Rightarrow>
          if rest = [] \<and> c = b64_pad \<and> d = b64_pad then Some [b64_byte1 x y]
          else (case b64_sextet c of
                  Some z \<Rightarrow>
                    if rest = [] \<and> d = b64_pad then Some [b64_byte1 x y, b64_byte2 y z]
                    else (case b64_sextet d of
                            Some w \<Rightarrow>
                              map_option
                                (\<lambda>bs. b64_byte1 x y # b64_byte2 y z # b64_byte3 z w # bs)
                                (b64_decode rest)
                          | None \<Rightarrow> None)
                | None \<Rightarrow> None)
      | _ \<Rightarrow> None)"
| "b64_decode _ = None"

definition FromBase64 :: "jsstring \<Rightarrow> error + bytes" where
  "FromBase64 t = (case b64_decode t of Some bs \<Rightarrow> Inr bs | None \<Rightarrow> Inl InvalidCharacterError)"

subsection \<open>Text to bytes\<close>

text \<open>
  Modelled from the spec: \<^verbatim>\<open>Convert.FromString(text, encoding)\<close> belongs to the external
  codec and is absent from the sources. The spec (section 6) names its two encodings:
  "UTF-8 text to bytes" and "binary-safe (Latin-1-style) text to bytes", the latter
  "1-byte-per-code-unit, not UTF-8". The binary encoding stores each code unit in one
  byte (a byte array keeps the low eight bits). UTF-8 encodes the code points of the
  UTF-16 text in one to four bytes; a surrogate without its partner has no UTF-8 form
  and is an error.
\<close>

datatype encoding = utf8 | binary

definition FromBinary :: "jsstring \<Rightarrow> bytes" where
  "FromBinary t = map (\<lambda>c. of_nat (unat c)) t"

definition is_high_surrogate :: "char16 \<Rightarrow> bool" where
  "is_high_surrogate c = (55296 \<le> unat c \<and> unat c < 56320)"

definition is_low_surrogate :: "char16 \<Rightarrow> bool" where
  "is_low_surrogate c = (56320 \<le> unat c \<and> unat c < 57344)"

definition utf8_bytes :: "nat \<Rightarrow> bytes" where
  "utf8_bytes cp =
     (if cp < 128 then [of_nat cp]
      else if cp < 2048 then [of_nat (192 + cp div 64), of_nat (128 + cp mod 64)]
      else if cp < 65536 then
        [of_nat (224 + cp div 4096), of_nat (128 + (cp div 64) mod 64), of_nat (128 + cp mod 64)]
      else
        [of_nat (240 + cp div 262144), of_nat (128 + (cp div 4096) mod 64),
         of_nat (128 + (cp div 64) mod 64), of_nat (128 + cp mod 64)])"

fun FromUtf8String :: "jsstring \<Rightarrow> error + bytes" where
  "FromUtf8String [] = Inr []"
| "FromUtf8String (c # cs) =
     (if is_high_surrogate c then
        (case cs of
           [] \<Rightarrow> Inl URIError
         | d # ds \<Rightarrow>
             if is_low_surrogate d then
               (case FromUtf8String ds of
                  Inl e \<Rightarrow> Inl e
                | Inr bs \<Rightarrow>
                    Inr (utf8_bytes (65536 + (unat c - 55296) * 1024 + (unat d - 56320)) @ bs))
             else Inl URIError)
      else if is_low_surrogate c then Inl URIError
      else (case FromUtf8String cs of
              Inl e \<Rightarrow> Inl e
            | Inr bs \<Rightarrow> Inr (utf8_bytes (unat c) @ bs)))"

fun FromString :: "jsstring \<Rightarrow> encoding \<Rightarrow> error + bytes" where
  "FromString t utf8 = FromUtf8String t"
| "FromString t binary = Inr (FromBinary t)"

section \<open>The XML-building capability\<close>

text \<open>
  Modelled from the spec: the document object model and the XML base class
  (\<^verbatim>\<open>XmlObject\<close>, from which \<^verbatim>\<open>XmlSignatureObject\<close> inherits \<^verbatim>\<open>CreateElement\<close>,
  \<^verbatim>\<open>LoadXml\<close>, \<^verbatim>\<open>GetChildren\<close> and \<^verbatim>\<open>GetChild\<close>) are absent from the sources. The spec
  (section 6) describes the capability as "create document/element
  (namespace-qualified), set/read element text, enumerate matching children by local
  name and namespace". A node is an element, with its namespace, its local name and its
  children in document order, or a piece of text. The namespace prefix plays no part in
  matching and is left out.
\<close>

datatype node =
    Element string string "node list"
  | TextNode jsstring

fun childNodes :: "node \<Rightarrow> node list" where
  "childNodes (Element ns name cs) = cs"
| "childNodes (TextNode t) = []"

text \<open>Reading \<^verbatim>\<open>textContent\<close>: the text of all descendants, in document order.\<close>

fun textContent :: "node \<Rightarrow> jsstring" where
  "textContent (TextNode t) = t"
| "textContent (Element ns name cs) = concat (map textContent cs)"

text \<open>
  Writing \<^verbatim>\<open>textContent\<close> replaces the children by one text node; \<^verbatim>\<open>null\<close> and the
  empty string leave the element without children.
\<close>

fun set_textContent :: "jsstring option \<Rightarrow> node \<Rightarrow> node" where
  "set_textContent v (Element ns name cs) =
     (case v of
        None \<Rightarrow> Element ns name []
      | Some t \<Rightarrow> if t = [] then Element ns name [] else Element ns name [TextNode t])"
| "set_textContent v (TextNode t) = TextNode (case v of None \<Rightarrow> [] | Some t' \<Rightarrow> t')"

fun appendChild :: "node \<Rightarrow> node \<Rightarrow> node" where
  "appendChild (Element ns name cs) c = Element ns name (cs @ [c])"
| "appendChild (TextNode t) c = TextNode t"

definition createElementNS :: "string \<Rightarrow> string \<Rightarrow> node" where
  "createElementNS ns name = Element ns name []"

fun is_element_named :: "string \<Rightarrow> string \<Rightarrow> node \<Rightarrow> bool" where
  "is_element_named name ns (Element ns' name' cs) = (name' = name \<and> ns' = ns)"
| "is_element_named name ns (TextNode t) = False"

text \<open>
  Modelled from the spec: the constants of \<^verbatim>\<open>XmlSignature\<close> (file \<^verbatim>\<open>xml\<close>, absent from
  the sources). Section 6 of the spec gives the element names of the wire format; the
  "fixed namespace" is the one of XML-DSig.
\<close>

definition NamespaceURI :: string where
  "NamespaceURI = ''http://www.w3.org/2000/09/xmldsig#''"

definition X509Data_name :: string where "X509Data_name = ''X509Data''"
definition X509IssuerSerial_name :: string where "X509IssuerSerial_name = ''X509IssuerSerial''"
definition X509IssuerName_name :: string where "X509IssuerName_name = ''X509IssuerName''"
definition X509SerialNumber_name :: string where "X509SerialNumber_name = ''X509SerialNumber''"
definition X509SKI_name :: string where "X509SKI_name = ''X509SKI''"
definition X509SubjectName_name :: string where "X509SubjectName_name = ''X509SubjectName''"
definition X509Certificate_name :: string where "X509Certificate_name = ''X509Certificate''"
definition X509CRL_name :: string where "X509CRL_name = ''X509CRL''"

text \<open>
  The static lookups of the base class. \<open>GetChildren_static\<close> enumerates the matching
  children. \<open>GetChild_static\<close> answers the first of them. Its last argument is the
  flag the call sites pass (\<^verbatim>\<open>true\<close> for the two children of an issuer/serial group,
  \<^verbatim>\<open>false\<close> for the optional CRL). The spec does not say what the flag does when no
  child matches, so that is the parameter \<open>strict\<close> of the model: with \<open>strict\<close> the
  lookup of a flagged (required) child that is missing raises \<open>ELEMENT_MISSING\<close>;
  without it every miss answers \<^verbatim>\<open>null\<close>.
\<close>

definition GetChildren_static :: "node \<Rightarrow> string \<Rightarrow> string \<Rightarrow> node list" where
  "GetChildren_static n name ns = filter (is_element_named name ns) (childNodes n)"

definition GetChild_static ::
  "bool \<Rightarrow> node \<Rightarrow> string \<Rightarrow> string \<Rightarrow> bool \<Rightarrow> error + node option" where
  "GetChild_static strict n name ns required =
     (case find (is_element_named name ns) (childNodes n) of
        Some c \<Rightarrow> Inr (Some c)
      | None \<Rightarrow> if required \<and> strict then Inl (ELEMENT_MISSING name) else Inr None)"

section \<open>The certificate\<close>

text \<open>
  Modelled from the spec: the class \<^verbatim>\<open>X509Certificate\<close> (file \<^verbatim>\<open>key/x509_certificate\<close>)
  is absent from the sources. The spec (section 6) describes it as an opaque object
  with "rawBytes() -> bytes" and an asynchronous key export: a certificate is built from
  its raw bytes and \<open>GetRawCertData\<close> answers them. The key export is a parameter of
  \<open>exportKey\<close> below.
\<close>

datatype X509Certificate = X509Certificate (GetRawCertData: bytes)

section \<open>\<^verbatim>\<open>KeyInfoX509Data\<close>\<close>

record X509IssuerSerial =
  issuerName :: jsstring
  serialNumber :: "jsstring option"

text \<open>
  The fields of the class. \<^verbatim>\<open>IssuerSerialList\<close>, \<^verbatim>\<open>SubjectNameList\<close> and
  \<^verbatim>\<open>X509CertificateList\<close> are declared without an initialiser: they are \<^verbatim>\<open>undefined\<close>
  (\<open>None\<close>) until the first write. \<^verbatim>\<open>SubjectKeyIdList\<close> is initialised to \<^verbatim>\<open>[]\<close> and is
  only ever assigned arrays, so it is a list. \<open>element\<close> is the field of the base class
  that \<^verbatim>\<open>LoadXml\<close> of the base class sets and the lookups read.
\<close>

record KeyInfoX509Data =
  element :: "node option"
  x509crl :: "bytes option"
  IssuerSerialList :: "X509IssuerSerial list option"
  SubjectKeyIdList :: "bytes list"
  SubjectNameList :: "jsstring list option"
  X509CertificateList :: "X509Certificate list option"

text \<open>\<^verbatim>\<open>new KeyInfoX509Data()\<close>, the constructor without a certificate.\<close>

definition new_KeyInfoX509Data :: KeyInfoX509Data where
  "new_KeyInfoX509Data =
     \<lparr>element = None, x509crl = None, IssuerSerialList = None, SubjectKeyIdList = [],
      SubjectNameList = None, X509CertificateList = None\<rparr>"

text \<open>The getters, and the setter of the CRL.\<close>

definition Certificates :: "KeyInfoX509Data \<Rightarrow> X509Certificate list option" where
  "Certificates this = X509CertificateList this"

definition CRL :: "KeyInfoX509Data \<Rightarrow> bytes option" where
  "CRL this = x509crl this"

definition set_CRL :: "bytes option \<Rightarrow> KeyInfoX509Data \<Rightarrow> KeyInfoX509Data" where
  "set_CRL v this = this\<lparr>x509crl := v\<rparr>"

definition IssuerSerials :: "KeyInfoX509Data \<Rightarrow> X509IssuerSerial list option" where
  "IssuerSerials this = IssuerSerialList this"

definition SubjectKeyIds :: "KeyInfoX509Data \<Rightarrow> bytes list" where
  "SubjectKeyIds this = SubjectKeyIdList this"

definition SubjectNames :: "KeyInfoX509Data \<Rightarrow> jsstring list option" where
  "SubjectNames this = SubjectNameList this"

text \<open>
  A method that returns nothing answers \<open>None\<close> when it returns and \<open>Some e\<close> when it
  throws \<open>e\<close>, together with the instance as the call leaves it. An absent argument
  (\<^verbatim>\<open>null\<close> or \<^verbatim>\<open>undefined\<close>) is \<open>None\<close>.
\<close>

type_synonym 's action = "'s \<Rightarrow> error option \<times> 's"

text \<open>The list a lazily allocated field holds once it is written: \<^verbatim>\<open>[]\<close> when it was absent.\<close>

definition allocated :: "'a list option \<Rightarrow> 'a list" where
  "allocated l = (case l of None \<Rightarrow> [] | Some xs \<Rightarrow> xs)"

definition AddCertificate :: "X509Certificate option \<Rightarrow> KeyInfoX509Data action" where
  "AddCertificate certificate this =
     (case certificate of
        None \<Rightarrow> (Some (PARAM_REQUIRED ''certificate''), this)
      | Some cert \<Rightarrow>
          (None, this\<lparr>X509CertificateList := Some (allocated (X509CertificateList this) @ [cert])\<rparr>))"

definition AddIssuerSerial :: "jsstring option \<Rightarrow> jsstring option \<Rightarrow> KeyInfoX509Data action" where
  "AddIssuerSerial issuerName' serialNumber' this =
     (case issuerName' of
        None \<Rightarrow> (Some (PARAM_REQUIRED ''issuerName''), this)
      | Some name \<Rightarrow>
          (let xis = \<lparr>issuerName = name, serialNumber = serialNumber'\<rparr>
           in (None, this\<lparr>IssuerSerialList := Some (allocated (IssuerSerialList this) @ [xis])\<rparr>)))"

text \<open>
  The argument of \<^verbatim>\<open>AddSubjectKeyId\<close> is a string or a byte array, as its two
  overloads declare. The method starts with \<^verbatim>\<open>if (this.SubjectKeyIdList)
  this.SubjectKeyIdList = []\<close>: an array is truthy, so the list is emptied on every call,
  before the argument is looked at.
\<close>

datatype subjectKeyId_arg = Base64Text jsstring | RawBytes bytes

definition AddSubjectKeyId :: "subjectKeyId_arg \<Rightarrow> KeyInfoX509Data action" where
  "AddSubjectKeyId subjectKeyId this =
     (let this1 = this\<lparr>SubjectKeyIdList := []\<rparr> in
      case subjectKeyId of
        Base64Text s \<Rightarrow>
          (case FromBase64 s of
             Inl e \<Rightarrow> (Some e, this1)
           | Inr id' \<Rightarrow> (None, this1\<lparr>SubjectKeyIdList := SubjectKeyIdList this1 @ [id']\<rparr>))
      | RawBytes b \<Rightarrow> (None, this1\<lparr>SubjectKeyIdList := SubjectKeyIdList this1 @ [b]\<rparr>))"

definition AddSubjectName :: "jsstring \<Rightarrow> KeyInfoX509Data action" where
  "AddSubjectName subjectName this =
     (None, this\<lparr>SubjectNameList := Some (allocated (SubjectNameList this) @ [subjectName])\<rparr>)"

subsection \<open>Key export\<close>

text \<open>
  A promise is resolved with a value, rejected with an error, or stays pending for ever.
  In \<^verbatim>\<open>exportKey\<close> the executor of the new promise reads \<^verbatim>\<open>this.Certificates.length\<close>:
  on a list that was never allocated the read throws a \<^verbatim>\<open>TypeError\<close>, which rejects the
  promise; on an empty list neither \<^verbatim>\<open>resolve\<close> nor \<^verbatim>\<open>reject\<close> is ever called;
  otherwise the promise settles as the export of the first certificate does. The export
  of a certificate, \<open>cert_exportKey\<close>, belongs to the absent certificate class and is a
  parameter.
\<close>

datatype 'k promise = Resolved 'k | Rejected error | Pending

definition exportKey ::
  "(X509Certificate \<Rightarrow> 'alg \<Rightarrow> 'k promise) \<Rightarrow> 'alg \<Rightarrow> KeyInfoX509Data \<Rightarrow> 'k promise" where
  "exportKey cert_exportKey alg this =
     (case Certificates this of
        None \<Rightarrow> Rejected TypeError
      | Some [] \<Rightarrow> Pending
      | Some (c # cs) \<Rightarrow> cert_exportKey c alg)"

subsection \<open>Construction and key import\<close>

text \<open>
  The constructor takes nothing, the raw bytes of a certificate, or a certificate with an
  include option. Building a chain (\<^verbatim>\<open>AddCertificatesChainFrom\<close>) is not implemented and
  throws; the key of the clause cannot be imported.
\<close>

datatype X509IncludeOption = IncludeNone | EndCertOnly | ExcludeRoot | WholeChain

definition AddCertificatesChainFrom :: "X509Certificate \<Rightarrow> bool \<Rightarrow> KeyInfoX509Data action" where
  "AddCertificatesChainFrom cert root this = (Some METHOD_NOT_IMPLEMENTED, this)"

datatype constructor_arg = NoCertificate | RawCertificate bytes | Certificate X509Certificate

definition constructor ::
  "constructor_arg \<Rightarrow> X509IncludeOption \<Rightarrow> error option \<times> KeyInfoX509Data" where
  "constructor cert includeOptions =
     (case cert of
        NoCertificate \<Rightarrow> (None, new_KeyInfoX509Data)
      | RawCertificate rgbCert \<Rightarrow>
          AddCertificate (Some (X509Certificate rgbCert)) new_KeyInfoX509Data
      | Certificate c \<Rightarrow>
          (case includeOptions of
             IncludeNone \<Rightarrow> AddCertificate (Some c) new_KeyInfoX509Data
           | EndCertOnly \<Rightarrow> AddCertificate (Some c) new_KeyInfoX509Data
           | ExcludeRoot \<Rightarrow> AddCertificatesChainFrom c False new_KeyInfoX509Data
           | WholeChain \<Rightarrow> AddCertificatesChainFrom c True new_KeyInfoX509Data))"

definition importKey :: "'key \<Rightarrow> KeyInfoX509Data \<Rightarrow> 'k promise" where
  "importKey key this = Rejected METHOD_NOT_SUPPORTED"

subsection \<open>\<^verbatim>\<open>GetXml\<close>\<close>

definition CreateElement :: "KeyInfoX509Data \<Rightarrow> node" where
  "CreateElement this = createElementNS NamespaceURI X509Data_name"

text \<open>The bodies of the five blocks of \<^verbatim>\<open>GetXml\<close>: the element each entry becomes.\<close>

definition X509IssuerSerial_element :: "X509IssuerSerial \<Rightarrow> node" where
  "X509IssuerSerial_element iser =
     (let isl = createElementNS NamespaceURI X509IssuerSerial_name;
          xin = createElementNS NamespaceURI X509IssuerName_name;
          xin = set_textContent (Some (issuerName iser)) xin;
          isl = appendChild isl xin;
          xsn = createElementNS NamespaceURI X509SerialNumber_name;
          xsn = set_textContent (serialNumber iser) xsn;
          isl = appendChild isl xsn
      in isl)"

definition X509SKI_element :: "bytes \<Rightarrow> node" where
  "X509SKI_element skid =
     set_textContent (Some (ToBase64 skid)) (createElementNS NamespaceURI X509SKI_name)"

definition X509SubjectName_element :: "jsstring \<Rightarrow> node" where
  "X509SubjectName_element subject =
     set_textContent (Some subject) (createElementNS NamespaceURI X509SubjectName_name)"

definition X509Certificate_element :: "X509Certificate \<Rightarrow> node" where
  "X509Certificate_element x509 =
     set_textContent (Some (ToBase64 (GetRawCertData x509)))
       (createElementNS NamespaceURI X509Certificate_name)"

definition X509CRL_element :: "bytes \<Rightarrow> node" where
  "X509CRL_element crl =
     set_textContent (Some (ToBase64 crl)) (createElementNS NamespaceURI X509CRL_name)"

definition GetXml :: "KeyInfoX509Data \<Rightarrow> node" where
  "GetXml this =
     (let xel = CreateElement this;
          xel = (case IssuerSerialList this of
                   None \<Rightarrow> xel
                 | Some l \<Rightarrow>
                     if length l > 0
                     then foldl (\<lambda>xel iser. appendChild xel (X509IssuerSerial_element iser)) xel l
                     else xel);
          xel = (if length (SubjectKeyIdList this) > 0
                 then foldl (\<lambda>xel skid. appendChild xel (X509SKI_element skid)) xel
                        (SubjectKeyIdList this)
                 else xel);
          xel = (case SubjectNameList this of
                   None \<Rightarrow> xel
                 | Some l \<Rightarrow>
                     if length l > 0
                     then foldl (\<lambda>xel subject. appendChild xel (X509SubjectName_element subject)) xel l
                     else xel);
          xel = (case X509CertificateList this of
                   None \<Rightarrow> xel
                 | Some l \<Rightarrow>
                     if length l > 0
                     then foldl (\<lambda>xel x509. appendChild xel (X509Certificate_element x509)) xel l
                     else xel);
          xel = (case x509crl this of
                   None \<Rightarrow> xel
                 | Some crl \<Rightarrow> appendChild xel (X509CRL_element crl))
      in xel)"

subsection \<open>\<^verbatim>\<open>LoadXml\<close>\<close>

text \<open>
  Modelled from the spec: \<^verbatim>\<open>LoadXml\<close> of the base class (absent from the sources)
  receives the element to parse. The spec speaks of parsing "an \<open><X509Data>\<close> element,
  fixed namespace": the model accepts the element of this clause and keeps it in the
  field \<open>element\<close>, and refuses any other node before anything is changed. The lookups
  of an instance read that field.
\<close>

definition XmlObject_LoadXml :: "node \<Rightarrow> KeyInfoX509Data action" where
  "XmlObject_LoadXml el this =
     (if is_element_named X509Data_name NamespaceURI el
      then (None, this\<lparr>element := Some el\<rparr>)
      else (Some (ELEMENT_MALFORMED X509Data_name), this))"

definition GetChildren :: "KeyInfoX509Data \<Rightarrow> string \<Rightarrow> error + node list" where
  "GetChildren this name =
     (case element this of
        None \<Rightarrow> Inl (NULL_PARAM X509Data_name)
      | Some el \<Rightarrow> Inr (GetChildren_static el name NamespaceURI))"

definition GetChild :: "bool \<Rightarrow> KeyInfoX509Data \<Rightarrow> string \<Rightarrow> bool \<Rightarrow> error + node option" where
  "GetChild strict this name required =
     (case element this of
        None \<Rightarrow> Inl (NULL_PARAM X509Data_name)
      | Some el \<Rightarrow> GetChild_static strict el name NamespaceURI required)"

text \<open>
  Statements in sequence, and a \<^verbatim>\<open>for ... of\<close> loop: a throw ends both. \<^verbatim>\<open>GetChildren\<close>
  answers an array, and an array is truthy: the tests \<^verbatim>\<open>if (xnl)\<close> before the loops always
  hold. A string is truthy when it is not empty.
\<close>

definition and_then :: "'s action \<Rightarrow> 's action \<Rightarrow> 's action" where
  "and_then f g this =
     (case f this of
        (None, this') \<Rightarrow> g this'
      | (Some e, this') \<Rightarrow> (Some e, this'))"

primrec for_each :: "('a \<Rightarrow> 's action) \<Rightarrow> 'a list \<Rightarrow> 's action" where
  "for_each body [] this = (None, this)"
| "for_each body (x # xs) this =
     (case body x this of
        (None, this') \<Rightarrow> for_each body xs this'
      | (Some e, this') \<Rightarrow> (Some e, this'))"

definition for_children ::
  "string \<Rightarrow> (node \<Rightarrow> KeyInfoX509Data action) \<Rightarrow> KeyInfoX509Data action" where
  "for_children name body this =
     (case GetChildren this name of
        Inl e \<Rightarrow> (Some e, this)
      | Inr xnl \<Rightarrow> for_each body xnl this)"

text \<open>
  The four guarded resets and the reset of the CRL. A guard \<^verbatim>\<open>if (this.List)\<close> holds
  for every array, also an empty one, and fails for \<^verbatim>\<open>undefined\<close>.
\<close>

definition reset_guarded :: "'a list option \<Rightarrow> 'a list option" where
  "reset_guarded l = (case l of None \<Rightarrow> None | Some xs \<Rightarrow> Some [])"

definition LoadXml_reset :: "KeyInfoX509Data action" where
  "LoadXml_reset this =
     (None,
      this\<lparr>IssuerSerialList := reset_guarded (IssuerSerialList this),
           SubjectKeyIdList := [],
           SubjectNameList := reset_guarded (SubjectNameList this),
           X509CertificateList := reset_guarded (X509CertificateList this),
           x509crl := None\<rparr>)"

text \<open>The bodies of the four loops, and the block of the CRL.\<close>

definition LoadXml_IssuerSerial :: "bool \<Rightarrow> node \<Rightarrow> KeyInfoX509Data action" where
  "LoadXml_IssuerSerial strict xel this =
     (case GetChild_static strict xel X509IssuerName_name NamespaceURI True of
        Inl e \<Rightarrow> (Some e, this)
      | Inr issuer \<Rightarrow>
          (case GetChild_static strict xel X509SerialNumber_name NamespaceURI True of
             Inl e \<Rightarrow> (Some e, this)
           | Inr serial \<Rightarrow>
               (case (issuer, serial) of
                  (Some i, Some sn) \<Rightarrow>
                    if textContent i \<noteq> [] \<and> textContent sn \<noteq> []
                    then AddIssuerSerial (Some (textContent i)) (Some (textContent sn)) this
                    else (None, this)
                | _ \<Rightarrow> (None, this))))"

definition LoadXml_SKI :: "node \<Rightarrow> KeyInfoX509Data action" where
  "LoadXml_SKI xel this =
     (if textContent xel \<noteq> []
      then (case FromBase64 (textContent xel) of
              Inl e \<Rightarrow> (Some e, this)
            | Inr skid \<Rightarrow> AddSubjectKeyId (RawBytes skid) this)
      else (None, this))"

definition LoadXml_SubjectName :: "node \<Rightarrow> KeyInfoX509Data action" where
  "LoadXml_SubjectName xel this =
     (if textContent xel \<noteq> [] then AddSubjectName (textContent xel) this else (None, this))"

definition LoadXml_Certificate :: "node \<Rightarrow> KeyInfoX509Data action" where
  "LoadXml_Certificate xel this =
     (if textContent xel \<noteq> []
      then (case FromBase64 (textContent xel) of
              Inl e \<Rightarrow> (Some e, this)
            | Inr cert \<Rightarrow> AddCertificate (Some (X509Certificate cert)) this)
      else (None, this))"

definition LoadXml_CRL :: "bool \<Rightarrow> KeyInfoX509Data action" where
  "LoadXml_CRL strict this =
     (case GetChild strict this X509CRL_name False of
        Inl e \<Rightarrow> (Some e, this)
      | Inr None \<Rightarrow> (None, this)
      | Inr (Some x509el) \<Rightarrow>
          if textContent x509el \<noteq> []
          then (case FromBase64 (textContent x509el) of
                  Inl e \<Rightarrow> (Some e, this)
                | Inr crl \<Rightarrow> (None, this\<lparr>x509crl := Some crl\<rparr>))
          else (None, this))"

definition LoadXml :: "bool \<Rightarrow> node \<Rightarrow> KeyInfoX509Data action" where
  "LoadXml strict el =
     and_then (XmlObject_LoadXml el)
    (and_then LoadXml_reset
    (and_then (for_children X509IssuerSerial_name (LoadXml_IssuerSerial strict))
    (and_then (for_children X509SKI_name LoadXml_SKI)
    (and_then (for_children X509SubjectName_name LoadXml_SubjectName)
    (and_then (for_children X509Certificate_name LoadXml_Certificate)
              (LoadXml_CRL strict))))))"

section \<open>The algorithm abstraction\<close>

text \<open>
  \<^verbatim>\<open>XmlAlgorithm\<close> holds the parameters the provider understands and the namespace that
  names the algorithm. The provider (\<^verbatim>\<open>Application.crypto.subtle\<close>) is external: its
  primitives \<open>digest\<close>, \<open>sign\<close> and \<open>verify\<close> are parameters, and what they answer (a
  promise) is of a type the model leaves open. \<^verbatim>\<open>XMLSerializer\<close> is external too.
\<close>

record 'alg XmlAlgorithm =
  algorithm :: 'alg
  xmlNamespace :: jsstring

definition getAlgorithmName :: "'alg XmlAlgorithm \<Rightarrow> jsstring" where
  "getAlgorithmName this = xmlNamespace this"

datatype hash_input = StringInput jsstring | BytesInput bytes | NodeInput node

definition getHash ::
  "('alg \<Rightarrow> bytes \<Rightarrow> 'p) \<Rightarrow> (node \<Rightarrow> jsstring) \<Rightarrow> 'alg XmlAlgorithm \<Rightarrow> hash_input \<Rightarrow> error + 'p" where
  "getHash digest serializeToString this xml =
     (let buf = (case xml of
                   StringInput s \<Rightarrow> FromString s utf8
                 | BytesInput b \<Rightarrow> Inr b
                 | NodeInput n \<Rightarrow> (let txt = serializeToString n in FromString txt utf8))
      in case buf of
           Inl e \<Rightarrow> Inl e
         | Inr b \<Rightarrow> Inr (digest (algorithm this) b))"

definition getSignature ::
  "('alg \<Rightarrow> 'key \<Rightarrow> bytes \<Rightarrow> 'p) \<Rightarrow> 'alg XmlAlgorithm \<Rightarrow> jsstring \<Rightarrow> 'key \<Rightarrow> 'alg \<Rightarrow> error + 'p" where
  "getSignature sign this signedInfo signingKey algorithm' =
     (case FromString signedInfo binary of
        Inl e \<Rightarrow> Inl e
      | Inr b \<Rightarrow> Inr (sign algorithm' signingKey b))"

definition verifySignature ::
  "('alg \<Rightarrow> 'key \<Rightarrow> bytes \<Rightarrow> bytes \<Rightarrow> 'p) \<Rightarrow> 'alg XmlAlgorithm \<Rightarrow> jsstring \<Rightarrow> 'key \<Rightarrow> jsstring \<Rightarrow>
     'alg option \<Rightarrow> error + 'p" where
  "verifySignature verify this signedInfo key signatureValue algorithm' =
     (case FromString signatureValue binary of
        Inl e \<Rightarrow> Inl e
      | Inr signatureValue_bytes \<Rightarrow>
          (case FromString signedInfo utf8 of
             Inl e \<Rightarrow> Inl e
           | Inr signedInfo_bytes \<Rightarrow>
               Inr (verify (case algorithm' of Some a \<Rightarrow> a | None \<Rightarrow> algorithm this) key
                      signatureValue_bytes signedInfo_bytes)))"

section \<open>Notions the statements use\<close>

text \<open>The \<^verbatim>\<open><X509Data>\<close> element without children.\<close>

definition empty_X509Data :: node where
  "empty_X509Data = Element NamespaceURI X509Data_name []"

text \<open>The children \<^verbatim>\<open>GetXml\<close> emits, block after block.\<close>

definition GetXml_children :: "KeyInfoX509Data \<Rightarrow> node list" where
  "GetXml_children this =
     map X509IssuerSerial_element (allocated (IssuerSerialList this)) @
     map X509SKI_element (SubjectKeyIdList this) @
     map X509SubjectName_element (allocated (SubjectNameList this)) @
     map X509Certificate_element (allocated (X509CertificateList this)) @
     (case x509crl this of None \<Rightarrow> [] | Some crl \<Rightarrow> [X509CRL_element crl])"

text \<open>
  The parse after the element has been accepted and the collections reset, written on the
  children of the element: the four loops over the children of each name, then the
  block of the CRL on the first child of that name.
\<close>

definition children_named :: "string \<Rightarrow> node list \<Rightarrow> node list" where
  "children_named name cs = filter (is_element_named name NamespaceURI) cs"

definition LoadXml_CRL_of :: "node option \<Rightarrow> KeyInfoX509Data action" where
  "LoadXml_CRL_of x this =
     (case x of
        None \<Rightarrow> (None, this)
      | Some x509el \<Rightarrow>
          if textContent x509el \<noteq> []
          then (case FromBase64 (textContent x509el) of
                  Inl e \<Rightarrow> (Some e, this)
                | Inr crl \<Rightarrow> (None, this\<lparr>x509crl := Some crl\<rparr>))
          else (None, this))"

definition LoadXml_children :: "bool \<Rightarrow> node list \<Rightarrow> KeyInfoX509Data action" where
  "LoadXml_children strict cs =
     and_then (for_each (LoadXml_IssuerSerial strict) (children_named X509IssuerSerial_name cs))
    (and_then (for_each LoadXml_SKI (children_named X509SKI_name cs))
    (and_then (for_each LoadXml_SubjectName (children_named X509SubjectName_name cs))
    (and_then (for_each LoadXml_Certificate (children_named X509Certificate_name cs))
              (LoadXml_CRL_of (find (is_element_named X509CRL_name NamespaceURI) cs)))))"

text \<open>
  What an instance holds: the entries of its four collections, a collection that was never
  allocated holding none, and its CRL. An action \<open>on_contents\<close> keeps the element of the
  instance, and whether it throws and what the instance holds afterwards depend only on
  what the instance held before.
\<close>

definition contents ::
  "KeyInfoX509Data \<Rightarrow>
     X509IssuerSerial list \<times> bytes list \<times> jsstring list \<times> X509Certificate list \<times> bytes option" where
  "contents this =
     (allocated (IssuerSerialList this), SubjectKeyIdList this, allocated (SubjectNameList this),
      allocated (X509CertificateList this), x509crl this)"

definition on_contents :: "KeyInfoX509Data action \<Rightarrow> bool" where
  "on_contents f \<longleftrightarrow>
     (\<forall>s. element (snd (f s)) = element s) \<and>
     (\<forall>s t. contents s = contents t \<longrightarrow>
            fst (f s) = fst (f t) \<and> contents (snd (f s)) = contents (snd (f t)))"






text \<open>
  The ways an instance is populated: a call of one of the four \<^verbatim>\<open>Add*\<close> methods or an
  assignment to \<^verbatim>\<open>CRL\<close>. \<open>perform\<close> gives the instance after the call, whether it
  returned or threw; \<open>populated ops\<close> is a new instance after the operations \<open>ops\<close>.
\<close>

datatype operation =
    Call_AddCertificate "X509Certificate option"
  | Call_AddIssuerSerial "jsstring option" "jsstring option"
  | Call_AddSubjectKeyId subjectKeyId_arg
  | Call_AddSubjectName jsstring
  | Assign_CRL "bytes option"

fun perform :: "operation \<Rightarrow> KeyInfoX509Data \<Rightarrow> KeyInfoX509Data" where
  "perform (Call_AddCertificate certificate) this = snd (AddCertificate certificate this)"
| "perform (Call_AddIssuerSerial name serial) this = snd (AddIssuerSerial name serial this)"
| "perform (Call_AddSubjectKeyId subjectKeyId) this = snd (AddSubjectKeyId subjectKeyId this)"
| "perform (Call_AddSubjectName subjectName) this = snd (AddSubjectName subjectName this)"
| "perform (Assign_CRL v) this = set_CRL v this"

definition populated :: "operation list \<Rightarrow> KeyInfoX509Data" where
  "populated ops = foldl (\<lambda>this op. perform op this) new_KeyInfoX509Data ops"

text \<open>
  An operation that stores no empty value: its strings are present and non-empty and its
  byte arrays non-empty (a call that throws stores nothing). \<open>serializable\<close> says the
  same of what an instance holds, and that no collection is allocated and empty and
  that at most one subject key identifier is held.
\<close>

definition filled :: "jsstring option \<Rightarrow> bool" where
  "filled v = (case v of None \<Rightarrow> False | Some t \<Rightarrow> t \<noteq> [])"

fun stores_no_empty_value :: "operation \<Rightarrow> bool" where
  "stores_no_empty_value (Call_AddCertificate certificate) =
     (case certificate of None \<Rightarrow> True | Some cert \<Rightarrow> GetRawCertData cert \<noteq> [])"
| "stores_no_empty_value (Call_AddIssuerSerial name serial) =
     (case name of None \<Rightarrow> True | Some n \<Rightarrow> n \<noteq> [] \<and> filled serial)"
| "stores_no_empty_value (Call_AddSubjectKeyId subjectKeyId) =
     (case subjectKeyId of Base64Text t \<Rightarrow> FromBase64 t \<noteq> Inr [] | RawBytes b \<Rightarrow> b \<noteq> [])"
| "stores_no_empty_value (Call_AddSubjectName subjectName) = (subjectName \<noteq> [])"
| "stores_no_empty_value (Assign_CRL v) = (v \<noteq> Some [])"

definition serializable :: "KeyInfoX509Data \<Rightarrow> bool" where
  "serializable this \<longleftrightarrow>
     IssuerSerialList this \<noteq> Some [] \<and>
     list_all (\<lambda>i. issuerName i \<noteq> [] \<and> filled (serialNumber i)) (allocated (IssuerSerialList this)) \<and>
     length (SubjectKeyIdList this) \<le> 1 \<and>
     list_all (\<lambda>b. b \<noteq> []) (SubjectKeyIdList this) \<and>
     SubjectNameList this \<noteq> Some [] \<and>
     list_all (\<lambda>t. t \<noteq> []) (allocated (SubjectNameList this)) \<and>
     X509CertificateList this \<noteq> Some [] \<and>
     list_all (\<lambda>c. GetRawCertData c \<noteq> []) (allocated (X509CertificateList this)) \<and>
     x509crl this \<noteq> Some []"

text \<open>A lazily allocated collection after entries were appended to it one by one.\<close>

definition appended :: "'a list option \<Rightarrow> 'a list \<Rightarrow> 'a list option" where
  "appended l xs = (if xs = [] then l else Some (allocated l @ xs))"

text \<open>Calls on the four collections in turn, and an assignment of the CRL.\<close>

definition interleaved_calls :: "operation list" where
  "interleaved_calls =
     [Call_AddSubjectName (str ''CN=b''),
      Call_AddIssuerSerial (Some (str ''CN=a'')) (Some (str ''1'')),
      Call_AddCertificate (Some (X509Certificate [48, 130, 1])),
      Call_AddSubjectKeyId (Base64Text (str ''QUJD'')),
      Call_AddSubjectName (str ''CN=c''),
      Call_AddCertificate (Some (X509Certificate [48, 130, 2])),
      Call_AddIssuerSerial (Some (str ''CN=d'')) (Some (str ''2'')),
      Assign_CRL (Some [1, 2, 3])]"

section \<open>The codec: base64 round trip\<close>

lemma unat_char16: "n < 65536 \<Longrightarrow> unat (of_nat n :: char16) = n"
  by (simp add: unat_of_nat)

lemma unat_b64_char:
  "s < 64 \<Longrightarrow> unat (b64_char s) =
     (if s < 26 then 65 + s else if s < 52 then 71 + s else if s < 62 then s - 4
      else if s = 62 then 43 else 47)"
  unfolding b64_char_def
  by (simp add: unat_char16 del: of_nat_add of_nat_diff)

lemma b64_sextet_char: "s < 64 \<Longrightarrow> b64_sextet (b64_char s) = Some s"
  unfolding b64_sextet_def Let_def
  by (auto simp: unat_b64_char)

lemma b64_char_not_pad: "s < 64 \<Longrightarrow> b64_char s \<noteq> b64_pad"
proof
  assume a: "s < 64" and "b64_char s = b64_pad"
  then have "unat (b64_char s) = unat b64_pad" by simp
  then show False using a by (simp add: unat_b64_char b64_pad_def split: if_splits)
qed

lemma unat_byte_less: "unat (a :: byte) < 256"
  using unsigned_less [of a, where ?'a = nat] by simp

lemma b64_byte1_single: "b64_byte1 (unat a div 4) ((unat a mod 4) * 16) = a"
proof -
  have "unat a div 4 * 4 + (unat a mod 4) * 16 div 16 = unat a" by simp
  then show ?thesis by (simp add: b64_byte1_def)
qed

lemma b64_byte1_eq:
  "b64_byte1 (unat a div 4) ((unat a mod 4) * 16 + unat (b :: byte) div 16) = a"
proof -
  have "unat b div 16 < 16" using unat_byte_less [of b] by simp
  then have "((unat a mod 4) * 16 + unat b div 16) div 16 = unat a mod 4" by simp
  then have "unat a div 4 * 4 + ((unat a mod 4) * 16 + unat b div 16) div 16 = unat a" by simp
  then show ?thesis by (simp add: b64_byte1_def)
qed

lemma b64_byte2_eq:
  "b64_byte2 ((unat (a :: byte) mod 4) * 16 + unat b div 16)
     ((unat b mod 16) * 4 + unat (c :: byte) div 64) = b"
proof -
  have b: "unat b div 16 < 16" using unat_byte_less [of b] by simp
  have c: "unat c div 64 < 4" using unat_byte_less [of c] by simp
  have 1: "((unat a mod 4) * 16 + unat b div 16) mod 16 = unat b div 16" using b by simp
  have 2: "((unat b mod 16) * 4 + unat c div 64) div 4 = unat b mod 16" using c by simp
  have "((unat a mod 4) * 16 + unat b div 16) mod 16 * 16
         + ((unat b mod 16) * 4 + unat c div 64) div 4 = unat b"
    unfolding 1 2 by simp
  then show ?thesis by (simp add: b64_byte2_def)
qed

lemma b64_byte2_last:
  "b64_byte2 ((unat (a :: byte) mod 4) * 16 + unat b div 16) ((unat b mod 16) * 4) = b"
proof -
  have b: "unat b div 16 < 16" using unat_byte_less [of b] by simp
  have 1: "((unat a mod 4) * 16 + unat b div 16) mod 16 = unat b div 16" using b by simp
  have 2: "((unat b mod 16) * 4) div 4 = unat b mod 16" by simp
  have "((unat a mod 4) * 16 + unat b div 16) mod 16 * 16
         + ((unat b mod 16) * 4) div 4 = unat b"
    unfolding 1 2 by simp
  then show ?thesis by (simp add: b64_byte2_def)
qed

lemma b64_byte3_eq:
  "b64_byte3 ((unat (b :: byte) mod 16) * 4 + unat c div 64) (unat c mod 64) = c"
proof -
  have c: "unat c div 64 < 4" using unat_byte_less [of c] by simp
  have 1: "((unat b mod 16) * 4 + unat c div 64) mod 4 = unat c div 64" using c by simp
  have "((unat b mod 16) * 4 + unat c div 64) mod 4 * 64 + unat c mod 64 = unat c"
    unfolding 1 by simp
  then show ?thesis by (simp add: b64_byte3_def)
qed

lemma sextet_bounds:
  "unat (a :: byte) div 4 < 64"
  "(unat (a :: byte) mod 4) * 16 < 64"
  "(unat (a :: byte) mod 4) * 16 + unat (b :: byte) div 16 < 64"
  "(unat (b :: byte) mod 16) * 4 < 64"
  "(unat (b :: byte) mod 16) * 4 + unat (c :: byte) div 64 < 64"
  "unat (c :: byte) mod 64 < 64"
  using unat_byte_less [of a] unat_byte_less [of b] unat_byte_less [of c]
  by simp_all

lemma b64_decode_ToBase64: "b64_decode (ToBase64 bs) = Some bs"
proof (induction bs rule: ToBase64.induct)
  case 1
  then show ?case by simp
next
  case (2 a)
  then show ?case
    by (simp add: b64_sextet_char sextet_bounds b64_byte1_single)
next
  case (3 a b)
  then show ?case
    by (simp add: b64_sextet_char sextet_bounds b64_char_not_pad b64_byte1_eq b64_byte2_last)
next
  case (4 a b c rest)
  then show ?case
    by (simp add: b64_sextet_char sextet_bounds b64_char_not_pad b64_byte1_eq b64_byte2_eq
        b64_byte3_eq)
qed

lemma FromBase64_ToBase64: "FromBase64 (ToBase64 bs) = Inr bs"
  by (simp add: FromBase64_def b64_decode_ToBase64)

lemma ToBase64_eq_Nil: "ToBase64 bs = [] \<longleftrightarrow> bs = []"
  by (cases bs rule: ToBase64.cases) simp_all

section \<open>The \<^verbatim>\<open>Add*\<close> operations\<close>

text \<open>
  C9. \<^verbatim>\<open>AddCertificate\<close> with an absent certificate and \<^verbatim>\<open>AddIssuerSerial\<close> with an absent
  issuer name throw \<^verbatim>\<open>PARAM_REQUIRED\<close>, and the instance is left exactly as it was: the
  test comes before any write.
\<close>

theorem C9_parameter_required:
  "AddCertificate None this = (Some (PARAM_REQUIRED ''certificate''), this) \<and>
   AddIssuerSerial None serial this = (Some (PARAM_REQUIRED ''issuerName''), this)"
  by (simp add: AddCertificate_def AddIssuerSerial_def)

text \<open>
  C10. With an issuer name and an absent serial number \<^verbatim>\<open>AddIssuerSerial\<close> returns
  without an error and appends the pair, whose serial number is absent, after the
  entries already stored: the serial number is never tested.
\<close>

theorem C10_serial_number_not_checked:
  "AddIssuerSerial (Some name) None this =
     (None, this\<lparr>IssuerSerialList :=
        Some (allocated (IssuerSerialList this) @ [\<lparr>issuerName = name, serialNumber = None\<rparr>])\<rparr>)"
  by (simp add: AddIssuerSerial_def)

text \<open>
  What \<^verbatim>\<open>AddSubjectKeyId\<close> does with a byte array, whatever the list held, and that the
  base64 text \<^verbatim>\<open>QUJD\<close> is stored as the bytes of \<^verbatim>\<open>ABC\<close>.
\<close>

lemma AddSubjectKeyId_RawBytes:
  "AddSubjectKeyId (RawBytes b) this = (None, this\<lparr>SubjectKeyIdList := [b]\<rparr>)"
  by (simp add: AddSubjectKeyId_def)

lemma AddSubjectKeyId_QUJD:
  "AddSubjectKeyId (Base64Text (str ''QUJD'')) this = AddSubjectKeyId (RawBytes [65, 66, 67]) this"
  by (simp add: AddSubjectKeyId_def str_def FromBase64_def b64_sextet_def b64_byte1_def
      b64_byte2_def b64_byte3_def b64_pad_def)

text \<open>
  C2. The specification has \<^verbatim>\<open>AddSubjectKeyId\<close> append one entry and keep those stored
  before; the method does not.
  Whatever the instance held, after a call with a byte array the list holds that array
  alone. On a new instance, adding the one-byte identifier 1 and then the one-byte
  identifier 2 leaves the list holding the second identifier alone: the first is lost.
\<close>

theorem C2_AddSubjectKeyId_drops_previous:
  "SubjectKeyIds (snd (AddSubjectKeyId (RawBytes b) this)) = [b] \<and>
   SubjectKeyIds (snd (AddSubjectKeyId (RawBytes [2])
      (snd (AddSubjectKeyId (RawBytes [1]) new_KeyInfoX509Data)))) = [[2]]"
  by (simp add: AddSubjectKeyId_def SubjectKeyIds_def new_KeyInfoX509Data_def)

section \<open>Key export\<close>

lemma exportKey_delegates:
  "Certificates this = Some (c # cs) \<Longrightarrow> exportKey cert_exportKey alg this = cert_exportKey c alg"
  by (simp add: exportKey_def)

text \<open>
  C4. The specification has \<^verbatim>\<open>exportKey\<close> resolve, without an error, when there is no
  certificate; the method does not.
  On a new instance the promise is rejected with a \<^verbatim>\<open>TypeError\<close>; on an instance whose
  list of certificates is allocated and empty (a certificate was added, then an element
  without certificates was parsed) the promise stays pending.
\<close>

theorem C4_exportKey_without_certificates:
  "exportKey cert_exportKey alg new_KeyInfoX509Data = Rejected TypeError \<and>
   exportKey cert_exportKey alg
     (snd (LoadXml strict empty_X509Data (snd (AddCertificate (Some c) new_KeyInfoX509Data))))
     = Pending"
  by (simp add: exportKey_def Certificates_def new_KeyInfoX509Data_def LoadXml_def and_then_def
      XmlObject_LoadXml_def LoadXml_reset_def for_children_def GetChildren_def
      GetChildren_static_def LoadXml_CRL_def GetChild_def GetChild_static_def
      AddCertificate_def allocated_def reset_guarded_def empty_X509Data_def)

section \<open>The algorithm abstraction\<close>

text \<open>
  C8. \<^verbatim>\<open>getHash\<close> hands the provider's digest, with the parameters of this algorithm, the
  UTF-8 bytes of a text, a byte array as it is, and the UTF-8 bytes of the serialised
  text of a node. The text \<^verbatim>\<open><a/>\<close> and its UTF-8 bytes give the same digest.
\<close>

theorem C8_getHash_shapes:
  "getHash digest ser this (StringInput s) =
     (case FromString s utf8 of Inl e \<Rightarrow> Inl e | Inr b \<Rightarrow> Inr (digest (algorithm this) b)) \<and>
   getHash digest ser this (BytesInput b) = Inr (digest (algorithm this) b) \<and>
   getHash digest ser this (NodeInput n) =
     (case FromString (ser n) utf8 of Inl e \<Rightarrow> Inl e | Inr b \<Rightarrow> Inr (digest (algorithm this) b)) \<and>
   FromString (str ''<a/>'') utf8 = Inr [60, 97, 47, 62] \<and>
   getHash digest ser this (StringInput (str ''<a/>'')) =
     getHash digest ser this (BytesInput [60, 97, 47, 62])"
  by (simp add: getHash_def str_def is_high_surrogate_def is_low_surrogate_def utf8_bytes_def)

text \<open>
  C3. The specification has \<^verbatim>\<open>getSignature\<close> and \<^verbatim>\<open>verifySignature\<close> encode the signed
  text with the same binary-safe encoding; they do not. \<^verbatim>\<open>getSignature\<close> hands the sign
  primitive the binary encoding of the text; \<^verbatim>\<open>verifySignature\<close> hands the verify
  primitive the binary encoding of the signature value and the UTF-8 encoding of the
  text. For the one-character text U+00E9 the sign primitive receives the single byte
  E9, and the verify primitive receives the two bytes C3 A9.
\<close>

theorem C3_signedInfo_encodings_differ:
  "getSignature sign this signedInfo k a = Inr (sign a k (FromBinary signedInfo)) \<and>
   verifySignature verify this signedInfo k sv None =
     (case FromUtf8String signedInfo of
        Inl e \<Rightarrow> Inl e
      | Inr b \<Rightarrow> Inr (verify (algorithm this) k (FromBinary sv) b)) \<and>
   getSignature sign this [233] k a = Inr (sign a k [233]) \<and>
   verifySignature verify this [233] k sv None =
     Inr (verify (algorithm this) k (FromBinary sv) [195, 169])"
proof -
  have 1: "getSignature sign this signedInfo k a = Inr (sign a k (FromBinary signedInfo))"
    by (simp add: getSignature_def)
  have 2: "verifySignature verify this signedInfo k sv None =
     (case FromUtf8String signedInfo of
        Inl e \<Rightarrow> Inl e
      | Inr b \<Rightarrow> Inr (verify (algorithm this) k (FromBinary sv) b))"
    by (simp add: verifySignature_def split: sum.splits)
  have 3: "getSignature sign this [233] k a = Inr (sign a k [233])"
    by (simp add: getSignature_def FromBinary_def)
  have 4: "verifySignature verify this [233] k sv None =
     Inr (verify (algorithm this) k (FromBinary sv) [195, 169])"
    by (simp add: verifySignature_def is_high_surrogate_def is_low_surrogate_def utf8_bytes_def)
  from 1 2 3 4 show ?thesis by blast
qed

section \<open>\<^verbatim>\<open>GetXml\<close>\<close>

lemma foldl_appendChild:
  "foldl (\<lambda>xel x. appendChild xel (f x)) (Element ns name cs) l = Element ns name (cs @ map f l)"
  by (induction l arbitrary: cs) simp_all

lemma GetXml_eq: "GetXml this = Element NamespaceURI X509Data_name (GetXml_children this)"
  unfolding GetXml_def GetXml_children_def CreateElement_def createElementNS_def Let_def
  by (simp add: foldl_appendChild allocated_def split: option.splits)

lemma set_textContent_created:
  "set_textContent (Some t) (createElementNS ns name) =
     Element ns name (if t = [] then [] else [TextNode t])"
  by (simp add: createElementNS_def)

lemma named_IssuerSerial:
  "is_element_named name ns (X509IssuerSerial_element x) \<longleftrightarrow>
     name = X509IssuerSerial_name \<and> ns = NamespaceURI"
  by (auto simp: X509IssuerSerial_element_def createElementNS_def Let_def)

lemma named_SKI:
  "is_element_named name ns (X509SKI_element x) \<longleftrightarrow> name = X509SKI_name \<and> ns = NamespaceURI"
  by (auto simp: X509SKI_element_def set_textContent_created)

lemma named_SubjectName:
  "is_element_named name ns (X509SubjectName_element x) \<longleftrightarrow>
     name = X509SubjectName_name \<and> ns = NamespaceURI"
  by (auto simp: X509SubjectName_element_def set_textContent_created)

lemma named_Certificate:
  "is_element_named name ns (X509Certificate_element x) \<longleftrightarrow>
     name = X509Certificate_name \<and> ns = NamespaceURI"
  by (auto simp: X509Certificate_element_def set_textContent_created)

lemma named_CRL:
  "is_element_named name ns (X509CRL_element x) \<longleftrightarrow> name = X509CRL_name \<and> ns = NamespaceURI"
  by (auto simp: X509CRL_element_def set_textContent_created)


lemma names_neq:
  "X509IssuerSerial_name \<noteq> X509SKI_name" "X509IssuerSerial_name \<noteq> X509SubjectName_name"
  "X509IssuerSerial_name \<noteq> X509Certificate_name" "X509IssuerSerial_name \<noteq> X509CRL_name"
  "X509SKI_name \<noteq> X509IssuerSerial_name" "X509SKI_name \<noteq> X509SubjectName_name"
  "X509SKI_name \<noteq> X509Certificate_name" "X509SKI_name \<noteq> X509CRL_name"
  "X509SubjectName_name \<noteq> X509IssuerSerial_name" "X509SubjectName_name \<noteq> X509SKI_name"
  "X509SubjectName_name \<noteq> X509Certificate_name" "X509SubjectName_name \<noteq> X509CRL_name"
  "X509Certificate_name \<noteq> X509IssuerSerial_name" "X509Certificate_name \<noteq> X509SKI_name"
  "X509Certificate_name \<noteq> X509SubjectName_name" "X509Certificate_name \<noteq> X509CRL_name"
  "X509CRL_name \<noteq> X509IssuerSerial_name" "X509CRL_name \<noteq> X509SKI_name"
  "X509CRL_name \<noteq> X509SubjectName_name" "X509CRL_name \<noteq> X509Certificate_name"
  by (simp_all add: X509IssuerSerial_name_def X509SKI_name_def X509SubjectName_name_def
      X509Certificate_name_def X509CRL_name_def)

lemma filter_named_map:
  assumes "\<And>x name ns. is_element_named name ns (f x) \<longleftrightarrow> name = n \<and> ns = NamespaceURI"
  shows "filter (is_element_named m NamespaceURI) (map f l) = (if m = n then map f l else [])"
  by (induction l) (simp_all add: assms)

lemmas filter_named_elements =
  filter_named_map [of X509IssuerSerial_element, OF named_IssuerSerial]
  filter_named_map [of X509SKI_element, OF named_SKI]
  filter_named_map [of X509SubjectName_element, OF named_SubjectName]
  filter_named_map [of X509Certificate_element, OF named_Certificate]

lemma children_named_GetXml:
  "children_named X509IssuerSerial_name (GetXml_children this) =
     map X509IssuerSerial_element (allocated (IssuerSerialList this))"
  "children_named X509SKI_name (GetXml_children this) =
     map X509SKI_element (SubjectKeyIdList this)"
  "children_named X509SubjectName_name (GetXml_children this) =
     map X509SubjectName_element (allocated (SubjectNameList this))"
  "children_named X509Certificate_name (GetXml_children this) =
     map X509Certificate_element (allocated (X509CertificateList this))"
  "children_named X509CRL_name (GetXml_children this) =
     (case x509crl this of None \<Rightarrow> [] | Some crl \<Rightarrow> [X509CRL_element crl])"
  by (simp_all add: children_named_def GetXml_children_def filter_named_elements names_neq
      named_CRL split: option.splits)

lemma find_filter_hd: "find P xs = (case filter P xs of [] \<Rightarrow> None | x # _ \<Rightarrow> Some x)"
  by (induction xs) simp_all

lemma find_CRL_GetXml:
  "find (is_element_named X509CRL_name NamespaceURI) (GetXml_children this) =
     map_option X509CRL_element (x509crl this)"
  using children_named_GetXml(5) [of this]
  by (simp add: find_filter_hd children_named_def split: option.splits)

text \<open>
  C7. The children of the element \<^verbatim>\<open>GetXml\<close> builds are the issuer/serial entries, then
  the subject key identifiers, then the subject names, then the certificates, then the
  CRL, each collection in its order; an empty or unallocated collection gives no child,
  and a new instance gives an element without children; at most one child is an
  \<^verbatim>\<open><X509CRL>\<close>; after the CRL is set twice it is the second value.
\<close>

theorem C7_GetXml_children_in_fixed_order:
  "GetXml this =
     Element NamespaceURI X509Data_name
      (map X509IssuerSerial_element (allocated (IssuerSerials this)) @
       map X509SKI_element (SubjectKeyIds this) @
       map X509SubjectName_element (allocated (SubjectNames this)) @
       map X509Certificate_element (allocated (Certificates this)) @
       (case CRL this of None \<Rightarrow> [] | Some crl \<Rightarrow> [X509CRL_element crl])) \<and>
   childNodes (GetXml new_KeyInfoX509Data) = [] \<and>
   length (filter (is_element_named X509CRL_name NamespaceURI) (childNodes (GetXml this))) \<le> 1 \<and>
   CRL (set_CRL b (set_CRL a this)) = b"
proof -
  have 0: "GetXml this = Element NamespaceURI X509Data_name (GetXml_children this)"
    by (rule GetXml_eq)
  have 1: "childNodes (GetXml this) = GetXml_children this" by (simp add: GetXml_eq)
  have 2: "childNodes (GetXml new_KeyInfoX509Data) = []"
    by (simp add: GetXml_eq GetXml_children_def new_KeyInfoX509Data_def allocated_def)
  have 3: "length (filter (is_element_named X509CRL_name NamespaceURI) (childNodes (GetXml this))) \<le> 1"
    unfolding 1 using children_named_GetXml(5) [of this]
    by (simp add: children_named_def split: option.splits)
  have 4: "CRL (set_CRL b (set_CRL a this)) = b" by (simp add: CRL_def set_CRL_def)
  show ?thesis
    using 0 2 3 4
    by (simp add: GetXml_children_def IssuerSerials_def SubjectKeyIds_def SubjectNames_def
        Certificates_def CRL_def)
qed


section \<open>\<^verbatim>\<open>LoadXml\<close>\<close>

lemma on_contentsI:
  assumes "\<And>s. element (snd (f s)) = element s"
    and "\<And>s t. contents s = contents t \<Longrightarrow> fst (f s) = fst (f t)"
    and "\<And>s t. contents s = contents t \<Longrightarrow> contents (snd (f s)) = contents (snd (f t))"
  shows "on_contents f"
  unfolding on_contents_def using assms by blast

lemma on_contents_element: "on_contents f \<Longrightarrow> element (snd (f s)) = element s"
  unfolding on_contents_def by blast

lemma on_contents_fst: "on_contents f \<Longrightarrow> contents s = contents t \<Longrightarrow> fst (f s) = fst (f t)"
  unfolding on_contents_def by blast

lemma on_contents_snd:
  "on_contents f \<Longrightarrow> contents s = contents t \<Longrightarrow> contents (snd (f s)) = contents (snd (f t))"
  unfolding on_contents_def by blast

lemma on_contents_and_then:
  assumes f: "on_contents f" and g: "on_contents g"
  shows "on_contents (and_then f g)"
proof (rule on_contentsI)
  fix s
  obtain e s' where fs: "f s = (e, s')" by (cases "f s")
  have el: "element s' = element s" using on_contents_element [OF f, of s] fs by simp
  show "element (snd (and_then f g s)) = element s"
  proof (cases e)
    case None
    then show ?thesis using fs el on_contents_element [OF g, of s'] by (simp add: and_then_def)
  next
    case (Some a)
    then show ?thesis using fs el by (simp add: and_then_def)
  qed
next
  fix s t assume c: "contents s = contents t"
  obtain e s' where fs: "f s = (e, s')" by (cases "f s")
  obtain e' t' where ft: "f t = (e', t')" by (cases "f t")
  have ee: "e' = e" using on_contents_fst [OF f c] fs ft by simp
  have cc: "contents s' = contents t'" using on_contents_snd [OF f c] fs ft by simp
  show "fst (and_then f g s) = fst (and_then f g t)"
  proof (cases e)
    case None
    then show ?thesis using fs ft ee on_contents_fst [OF g cc] by (simp add: and_then_def)
  next
    case (Some a)
    then show ?thesis using fs ft ee by (simp add: and_then_def)
  qed
  show "contents (snd (and_then f g s)) = contents (snd (and_then f g t))"
  proof (cases e)
    case None
    then show ?thesis using fs ft ee on_contents_snd [OF g cc] by (simp add: and_then_def)
  next
    case (Some a)
    then show ?thesis using fs ft ee cc by (simp add: and_then_def)
  qed
qed

lemma for_each_and_then: "for_each body (x # xs) = and_then (body x) (for_each body xs)"
  by (rule ext) (simp add: and_then_def)

lemma on_contents_skip: "on_contents (\<lambda>s. (None, s))"
  by (simp add: on_contents_def)

lemma on_contents_throw: "on_contents (\<lambda>s. (Some e, s))"
  by (simp add: on_contents_def)

lemma on_contents_for_each:
  assumes "\<And>x. on_contents (body x)"
  shows "on_contents (for_each body xs)"
proof (induction xs)
  case Nil
  have "for_each body [] = (\<lambda>s. (None, s))" by (rule ext) simp
  then show ?case by (simp add: on_contents_skip)
next
  case (Cons x xs)
  then show ?case unfolding for_each_and_then using assms by (intro on_contents_and_then)
qed

lemma on_contents_AddIssuerSerial: "on_contents (AddIssuerSerial n sn)"
proof (cases n)
  case None
  then have "AddIssuerSerial n sn = (\<lambda>s. (Some (PARAM_REQUIRED ''issuerName''), s))"
    by (simp add: fun_eq_iff AddIssuerSerial_def)
  then show ?thesis by (simp add: on_contents_throw)
next
  case (Some a)
  then show ?thesis
    by (simp add: on_contents_def AddIssuerSerial_def contents_def)
qed

lemma on_contents_AddSubjectKeyId: "on_contents (AddSubjectKeyId v)"
proof (cases v)
  case (Base64Text t)
  then show ?thesis 
    by (cases "FromBase64 t") (simp_all add: on_contents_def AddSubjectKeyId_def contents_def)
next
  case (RawBytes b)
  then show ?thesis 
    by (simp add: on_contents_def AddSubjectKeyId_def contents_def)
qed

lemma on_contents_AddSubjectName: "on_contents (AddSubjectName v)"
  by (simp add: on_contents_def AddSubjectName_def contents_def)

lemma on_contents_AddCertificate: "on_contents (AddCertificate c)"
proof (cases c)
  case None
  then have "AddCertificate c = (\<lambda>s. (Some (PARAM_REQUIRED ''certificate''), s))"
    by (simp add: fun_eq_iff AddCertificate_def)
  then show ?thesis by (simp add: on_contents_throw)
next
  case (Some a)
  then show ?thesis
    by (simp add: on_contents_def AddCertificate_def contents_def)
qed

lemma LoadXml_IssuerSerial_cases:
  "LoadXml_IssuerSerial strict xel = (\<lambda>s. (None, s)) \<or>
   (\<exists>e. LoadXml_IssuerSerial strict xel = (\<lambda>s. (Some e, s))) \<or>
   (\<exists>n sn. LoadXml_IssuerSerial strict xel = AddIssuerSerial n sn)"
proof (cases "GetChild_static strict xel X509IssuerName_name NamespaceURI True")
  case (Inl e)
  then have "LoadXml_IssuerSerial strict xel = (\<lambda>s. (Some e, s))"
    by (simp add: fun_eq_iff LoadXml_IssuerSerial_def)
  then show ?thesis by blast
next
  case issuer: (Inr issuer)
  show ?thesis
  proof (cases "GetChild_static strict xel X509SerialNumber_name NamespaceURI True")
    case (Inl e)
    then have "LoadXml_IssuerSerial strict xel = (\<lambda>s. (Some e, s))"
      using issuer by (simp add: fun_eq_iff LoadXml_IssuerSerial_def)
    then show ?thesis by blast
  next
    case serial: (Inr serial)
    show ?thesis
    proof (cases "\<exists>i sn. issuer = Some i \<and> serial = Some sn \<and> textContent i \<noteq> [] \<and> textContent sn \<noteq> []")
      case True
      then obtain i sn where "issuer = Some i" "serial = Some sn" "textContent i \<noteq> []" "textContent sn \<noteq> []"
        by blast
      then have "LoadXml_IssuerSerial strict xel = AddIssuerSerial (Some (textContent i)) (Some (textContent sn))"
        using issuer serial by (simp add: fun_eq_iff LoadXml_IssuerSerial_def)
      then show ?thesis by blast
    next
      case False
      then have "LoadXml_IssuerSerial strict xel = (\<lambda>s. (None, s))"
        using issuer serial 
        by (cases issuer; cases serial) (auto simp add: fun_eq_iff LoadXml_IssuerSerial_def)
      then show ?thesis by blast
    qed
  qed
qed

lemma on_contents_LoadXml_IssuerSerial: "on_contents (LoadXml_IssuerSerial strict xel)"
  using LoadXml_IssuerSerial_cases [of strict xel]
    on_contents_skip on_contents_throw on_contents_AddIssuerSerial by auto

lemma on_contents_LoadXml_SKI: "on_contents (LoadXml_SKI xel)"
proof (cases "textContent xel = []")
  case True
  then have "LoadXml_SKI xel = (\<lambda>s. (None, s))" by (simp add: fun_eq_iff LoadXml_SKI_def)
  then show ?thesis by (simp add: on_contents_skip)
next
  case False
  show ?thesis
  proof (cases "FromBase64 (textContent xel)")
    case (Inl e)
    then have "LoadXml_SKI xel = (\<lambda>s. (Some e, s))" using False by (simp add: fun_eq_iff LoadXml_SKI_def)
    then show ?thesis by (simp add: on_contents_throw)
  next
    case (Inr b)
    then have "LoadXml_SKI xel = AddSubjectKeyId (RawBytes b)" using False by (simp add: fun_eq_iff LoadXml_SKI_def)
    then show ?thesis by (simp add: on_contents_AddSubjectKeyId)
  qed
qed

lemma on_contents_LoadXml_SubjectName: "on_contents (LoadXml_SubjectName xel)"
proof (cases "textContent xel = []")
  case True
  then have "LoadXml_SubjectName xel = (\<lambda>s. (None, s))" by (simp add: fun_eq_iff LoadXml_SubjectName_def)
  then show ?thesis by (simp add: on_contents_skip)
next
  case False
  then have "LoadXml_SubjectName xel = AddSubjectName (textContent xel)" by (simp add: fun_eq_iff LoadXml_SubjectName_def)
  then show ?thesis by (simp add: on_contents_AddSubjectName)
qed

lemma on_contents_LoadXml_Certificate: "on_contents (LoadXml_Certificate xel)"
proof (cases "textContent xel = []")
  case True
  then have "LoadXml_Certificate xel = (\<lambda>s. (None, s))" by (simp add: fun_eq_iff LoadXml_Certificate_def)
  then show ?thesis by (simp add: on_contents_skip)
next
  case False
  show ?thesis
  proof (cases "FromBase64 (textContent xel)")
    case (Inl e)
    then have "LoadXml_Certificate xel = (\<lambda>s. (Some e, s))" using False by (simp add: fun_eq_iff LoadXml_Certificate_def)
    then show ?thesis by (simp add: on_contents_throw)
  next
    case (Inr b)
    then have "LoadXml_Certificate xel = AddCertificate (Some (X509Certificate b))" using False by (simp add: fun_eq_iff LoadXml_Certificate_def)
    then show ?thesis by (simp add: on_contents_AddCertificate)
  qed
qed

lemma on_contents_set_crl: "on_contents (\<lambda>s. (None, s\<lparr>x509crl := v\<rparr>))"
  by (simp add: on_contents_def contents_def)

lemma on_contents_LoadXml_CRL_of: "on_contents (LoadXml_CRL_of x)"
proof (cases "\<exists>el. x = Some el \<and> textContent el \<noteq> []")
  case False
  then have "LoadXml_CRL_of x = (\<lambda>s. (None, s))"
    by (cases x) (auto simp add: fun_eq_iff LoadXml_CRL_of_def)
  then show ?thesis by (simp add: on_contents_skip)
next
  case True
  then obtain el where x: "x = Some el" "textContent el \<noteq> []" by blast
  show ?thesis
  proof (cases "FromBase64 (textContent el)")
    case (Inl e)
    then have "LoadXml_CRL_of x = (\<lambda>s. (Some e, s))" using x by (simp add: fun_eq_iff LoadXml_CRL_of_def)
    then show ?thesis by (simp add: on_contents_throw)
  next
    case (Inr b)
    then have "LoadXml_CRL_of x = (\<lambda>s. (None, s\<lparr>x509crl := Some b\<rparr>))" using x by (simp add: fun_eq_iff LoadXml_CRL_of_def)
    then show ?thesis by (simp add: on_contents_set_crl)
  qed
qed

lemma on_contents_LoadXml_children: "on_contents (LoadXml_children strict cs)"
  unfolding LoadXml_children_def
  by (intro on_contents_and_then on_contents_for_each on_contents_LoadXml_IssuerSerial
      on_contents_LoadXml_SKI on_contents_LoadXml_SubjectName on_contents_LoadXml_Certificate
      on_contents_LoadXml_CRL_of)


lemma for_children_element:
  "element s = Some el \<Longrightarrow>
     for_children name body s = for_each body (children_named name (childNodes el)) s"
  by (simp add: for_children_def GetChildren_def GetChildren_static_def children_named_def)

lemma LoadXml_CRL_element:
  "element s = Some el \<Longrightarrow>
     LoadXml_CRL strict s =
       LoadXml_CRL_of (find (is_element_named X509CRL_name NamespaceURI) (childNodes el)) s"
  by (simp add: LoadXml_CRL_def LoadXml_CRL_of_def GetChild_def GetChild_static_def
      split: option.splits)

lemma and_then_element_cong:
  assumes f: "on_contents f"
    and ff: "\<And>s. element s = Some el \<Longrightarrow> f' s = f s"
    and gg: "\<And>s. element s = Some el \<Longrightarrow> g' s = g s"
    and s: "element s = Some el"
  shows "and_then f' g' s = and_then f g s"
proof -
  obtain e s' where fs: "f s = (e, s')" by (cases "f s")
  have el: "element s' = Some el" using on_contents_element [OF f, of s] fs s by simp
  show ?thesis
    using ff [OF s] fs gg [OF el] by (cases e) (simp_all add: and_then_def)
qed

lemma LoadXml_phases:
  assumes "element s = Some el"
  shows "and_then (for_children X509IssuerSerial_name (LoadXml_IssuerSerial strict))
    (and_then (for_children X509SKI_name LoadXml_SKI)
    (and_then (for_children X509SubjectName_name LoadXml_SubjectName)
    (and_then (for_children X509Certificate_name LoadXml_Certificate)
              (LoadXml_CRL strict)))) s = LoadXml_children strict (childNodes el) s"
  unfolding LoadXml_children_def
  using assms
  by (intro and_then_element_cong [where el = el] on_contents_for_each
      on_contents_LoadXml_IssuerSerial on_contents_LoadXml_SKI on_contents_LoadXml_SubjectName
      on_contents_LoadXml_Certificate for_children_element LoadXml_CRL_element)

lemma LoadXml_valid:
  assumes "is_element_named X509Data_name NamespaceURI el"
  shows "LoadXml strict el this =
     LoadXml_children strict (childNodes el) ((snd (LoadXml_reset this))\<lparr>element := Some el\<rparr>)"
proof -
  let ?s = "(snd (LoadXml_reset this))\<lparr>element := Some el\<rparr>"
  have "LoadXml strict el this =
     and_then (for_children X509IssuerSerial_name (LoadXml_IssuerSerial strict))
    (and_then (for_children X509SKI_name LoadXml_SKI)
    (and_then (for_children X509SubjectName_name LoadXml_SubjectName)
    (and_then (for_children X509Certificate_name LoadXml_Certificate)
              (LoadXml_CRL strict)))) ?s"
  proof -
    have r: "LoadXml_reset (this\<lparr>element := Some el\<rparr>) = (None, ?s)"
      by (cases this) (simp add: LoadXml_reset_def)
    show ?thesis
      using assms
      by (simp add: LoadXml_def and_then_def [of "XmlObject_LoadXml el"]
          and_then_def [of LoadXml_reset] XmlObject_LoadXml_def r)
  qed
  also have "\<dots> = LoadXml_children strict (childNodes el) ?s"
    by (rule LoadXml_phases) simp
  finally show ?thesis .
qed

lemma LoadXml_invalid:
  "\<not> is_element_named X509Data_name NamespaceURI el \<Longrightarrow>
     LoadXml strict el this = (Some (ELEMENT_MALFORMED X509Data_name), this)"
  by (simp add: LoadXml_def and_then_def XmlObject_LoadXml_def)

lemma contents_reset:
  "contents ((snd (LoadXml_reset this))\<lparr>element := e\<rparr>) = ([], [], [], [], None)"
  by (simp add: contents_def LoadXml_reset_def reset_guarded_def allocated_def split: option.splits)

text \<open>Parsing an element that holds one subject name, on a new instance.\<close>

lemma LoadXml_lone_SubjectName:
  "LoadXml strict (Element NamespaceURI X509Data_name [X509SubjectName_element (str ''CN=b'')])
     new_KeyInfoX509Data =
   (None, new_KeyInfoX509Data
      \<lparr>element := Some (Element NamespaceURI X509Data_name [X509SubjectName_element (str ''CN=b'')]),
       SubjectNameList := Some [str ''CN=b'']\<rparr>)"
  by (simp add: new_KeyInfoX509Data_def LoadXml_def and_then_def
      XmlObject_LoadXml_def LoadXml_reset_def for_children_def GetChildren_def
      GetChildren_static_def LoadXml_CRL_def GetChild_def GetChild_static_def
      LoadXml_SubjectName_def AddSubjectName_def X509SubjectName_element_def
      createElementNS_def str_def
      allocated_def reset_guarded_def names_neq)

text \<open>
  C5 as amended. For an \<^verbatim>\<open><X509Data>\<close> element of the namespace and any two prior
  states, \<^verbatim>\<open>LoadXml\<close> throws in one exactly when it throws in the other, with the same
  error, and leaves the same entries in each of the four collections, the same CRL and
  the same element: nothing of the prior entries survives.
\<close>

theorem C5_LoadXml_contents_independent_of_prior_state:
  assumes "is_element_named X509Data_name NamespaceURI el"
  shows "fst (LoadXml strict el s1) = fst (LoadXml strict el s2) \<and>
         allocated (IssuerSerials (snd (LoadXml strict el s1))) =
           allocated (IssuerSerials (snd (LoadXml strict el s2))) \<and>
         SubjectKeyIds (snd (LoadXml strict el s1)) = SubjectKeyIds (snd (LoadXml strict el s2)) \<and>
         allocated (SubjectNames (snd (LoadXml strict el s1))) =
           allocated (SubjectNames (snd (LoadXml strict el s2))) \<and>
         allocated (Certificates (snd (LoadXml strict el s1))) =
           allocated (Certificates (snd (LoadXml strict el s2))) \<and>
         CRL (snd (LoadXml strict el s1)) = CRL (snd (LoadXml strict el s2)) \<and>
         element (snd (LoadXml strict el s1)) = element (snd (LoadXml strict el s2))"
proof -
  let ?t1 = "(snd (LoadXml_reset s1))\<lparr>element := Some el\<rparr>"
  let ?t2 = "(snd (LoadXml_reset s2))\<lparr>element := Some el\<rparr>"
  have c: "contents ?t1 = contents ?t2" by (simp only: contents_reset)
  note oc = on_contents_LoadXml_children [of strict "childNodes el"]
  have 1: "fst (LoadXml strict el s1) = fst (LoadXml strict el s2)"
    using on_contents_fst [OF oc c] by (simp only: LoadXml_valid [OF assms])
  have 2: "contents (snd (LoadXml strict el s1)) = contents (snd (LoadXml strict el s2))"
    using on_contents_snd [OF oc c] by (simp only: LoadXml_valid [OF assms])
  have 3: "element (snd (LoadXml strict el s1)) = element (snd (LoadXml strict el s2))"
    using on_contents_element [OF oc, of ?t1] on_contents_element [OF oc, of ?t2]
    by (simp add: LoadXml_valid [OF assms])
  from 2 have "allocated (IssuerSerialList (snd (LoadXml strict el s1))) =
           allocated (IssuerSerialList (snd (LoadXml strict el s2)))"
     "SubjectKeyIdList (snd (LoadXml strict el s1)) = SubjectKeyIdList (snd (LoadXml strict el s2))"
     "allocated (SubjectNameList (snd (LoadXml strict el s1))) =
           allocated (SubjectNameList (snd (LoadXml strict el s2)))"
     "allocated (X509CertificateList (snd (LoadXml strict el s1))) =
           allocated (X509CertificateList (snd (LoadXml strict el s2)))"
     "x509crl (snd (LoadXml strict el s1)) = x509crl (snd (LoadXml strict el s2))"
    unfolding contents_def by simp_all
  with 1 3 show ?thesis
    by (simp add: IssuerSerials_def SubjectKeyIds_def SubjectNames_def Certificates_def CRL_def)
qed


theorem C5_witness:
  "is_element_named X509Data_name NamespaceURI
     (Element NamespaceURI X509Data_name [X509SubjectName_element (str ''CN=b'')]) \<and>
   fst (LoadXml False (Element NamespaceURI X509Data_name [X509SubjectName_element (str ''CN=b'')])
      (snd (AddSubjectName (str ''CN=a'') new_KeyInfoX509Data))) = None \<and>
   allocated (SubjectNames
     (snd (LoadXml False (Element NamespaceURI X509Data_name [X509SubjectName_element (str ''CN=b'')])
        (snd (AddSubjectName (str ''CN=a'') new_KeyInfoX509Data))))) = [str ''CN=b'']"
proof -
  let ?el = "Element NamespaceURI X509Data_name [X509SubjectName_element (str ''CN=b'')]"
  have v: "is_element_named X509Data_name NamespaceURI ?el" by simp
  have n: "fst (LoadXml False ?el new_KeyInfoX509Data) = None"
    "allocated (SubjectNames (snd (LoadXml False ?el new_KeyInfoX509Data))) = [str ''CN=b'']"
    by (simp_all add: LoadXml_lone_SubjectName SubjectNames_def allocated_def)
  from v n C5_LoadXml_contents_independent_of_prior_state [OF v, of False new_KeyInfoX509Data
        "snd (AddSubjectName (str ''CN=a'') new_KeyInfoX509Data)"]
  show ?thesis by simp
qed

text \<open>
  C5 as stated fails: the resulting state is not independent of the prior state. Parsing
  the element without children leaves the subject names of a new instance unallocated
  (\<^verbatim>\<open>undefined\<close>), and those of an instance that held a subject name an empty array.
\<close>

theorem C5_counterexample:
  "SubjectNames (snd (LoadXml False empty_X509Data new_KeyInfoX509Data)) = None \<and>
   SubjectNames (snd (LoadXml False empty_X509Data
      (snd (AddSubjectName (str ''CN=a'') new_KeyInfoX509Data)))) = Some []"
  by (simp add: SubjectNames_def new_KeyInfoX509Data_def LoadXml_def and_then_def
      XmlObject_LoadXml_def LoadXml_reset_def for_children_def GetChildren_def
      GetChildren_static_def LoadXml_CRL_def GetChild_def GetChild_static_def
      AddSubjectName_def allocated_def reset_guarded_def empty_X509Data_def)




lemma find_None_GetChildren:
  "find (is_element_named name ns) (childNodes n) = None \<longleftrightarrow> GetChildren_static n name ns = []"
  by (auto simp: GetChildren_static_def find_None_iff filter_empty_conv)

text \<open>
  What the body of the first loop does with a group that lacks one of its two children,
  under each behaviour of the lookup: skipped when a miss answers \<^verbatim>\<open>null\<close>, a throw
  when the flag the body passes is honoured.
\<close>

lemma LoadXml_IssuerSerial_missing_child:
  assumes "GetChildren_static xel X509IssuerName_name NamespaceURI = [] \<or>
           GetChildren_static xel X509SerialNumber_name NamespaceURI = []"
  shows "LoadXml_IssuerSerial False xel s = (None, s)"
proof -
  from assms have
    "find (is_element_named X509IssuerName_name NamespaceURI) (childNodes xel) = None \<or>
     find (is_element_named X509SerialNumber_name NamespaceURI) (childNodes xel) = None"
    by (simp add: find_None_GetChildren)
  then show ?thesis
    by (auto simp: LoadXml_IssuerSerial_def GetChild_static_def split: option.splits)
qed

lemma LoadXml_IssuerSerial_missing_child_strict:
  assumes "GetChildren_static xel X509IssuerName_name NamespaceURI = [] \<or>
           GetChildren_static xel X509SerialNumber_name NamespaceURI = []"
  shows "LoadXml_IssuerSerial True xel s = (Some (ELEMENT_MISSING X509IssuerName_name), s) \<or>
         LoadXml_IssuerSerial True xel s = (Some (ELEMENT_MISSING X509SerialNumber_name), s)"
proof -
  from assms have
    "find (is_element_named X509IssuerName_name NamespaceURI) (childNodes xel) = None \<or>
     find (is_element_named X509SerialNumber_name NamespaceURI) (childNodes xel) = None"
    by (simp add: find_None_GetChildren)
  then show ?thesis
    by (auto simp: LoadXml_IssuerSerial_def GetChild_static_def split: option.splits)
qed








































section \<open>Round trip\<close>

lemma serializable_new: "serializable new_KeyInfoX509Data"
  by (simp add: serializable_def new_KeyInfoX509Data_def allocated_def)

lemma allocated_simps: "allocated None = []" "allocated (Some xs) = xs"
  by (simp_all add: allocated_def)

lemma serializable_perform:
  assumes "serializable this" "stores_no_empty_value op"
  shows "serializable (perform op this)"
proof (cases op)
  case (Call_AddCertificate c)
  then show ?thesis using assms
    by (cases c) (simp_all add: serializable_def AddCertificate_def allocated_simps)
next
  case (Call_AddIssuerSerial n sn)
  then show ?thesis using assms
    by (cases n) (simp_all add: serializable_def AddIssuerSerial_def allocated_simps)
next
  case (Call_AddSubjectKeyId v)
  show ?thesis
  proof (cases v)
    case (Base64Text t)
    then show ?thesis using assms Call_AddSubjectKeyId
      by (cases "FromBase64 t") (simp_all add: serializable_def AddSubjectKeyId_def)
  next
    case (RawBytes b)
    then show ?thesis using assms Call_AddSubjectKeyId
      by (simp add: serializable_def AddSubjectKeyId_def)
  qed
next
  case (Call_AddSubjectName t)
  then show ?thesis using assms
    by (simp add: serializable_def AddSubjectName_def allocated_simps)
next
  case (Assign_CRL v)
  then show ?thesis using assms
    by (simp add: serializable_def set_CRL_def)
qed

lemma serializable_foldl:
  "serializable s \<Longrightarrow> list_all stores_no_empty_value ops \<Longrightarrow>
     serializable (foldl (\<lambda>this op. perform op this) s ops)"
  by (induction ops arbitrary: s) (simp_all add: serializable_perform)

lemma serializable_populated:
  "list_all stores_no_empty_value ops \<Longrightarrow> serializable (populated ops)"
  unfolding populated_def by (rule serializable_foldl [OF serializable_new])

text \<open>What \<^verbatim>\<open>LoadXml\<close> reads back from the element of one entry.\<close>

lemma IssuerName_neq_SerialNumber: "X509IssuerName_name \<noteq> X509SerialNumber_name"
  by (simp add: X509IssuerName_name_def X509SerialNumber_name_def)

lemma LoadXml_IssuerSerial_element:
  assumes "issuerName iser \<noteq> []" "filled (serialNumber iser)"
  shows "LoadXml_IssuerSerial strict (X509IssuerSerial_element iser) s =
     (None, s\<lparr>IssuerSerialList := Some (allocated (IssuerSerialList s) @ [iser])\<rparr>)"
proof -
  from assms(2) obtain sn where sn: "serialNumber iser = Some sn" "sn \<noteq> []"
    by (cases "serialNumber iser") (simp_all add: filled_def)
  have el: "X509IssuerSerial_element iser =
      Element NamespaceURI X509IssuerSerial_name
        [Element NamespaceURI X509IssuerName_name [TextNode (issuerName iser)],
         Element NamespaceURI X509SerialNumber_name [TextNode sn]]"
    using assms(1) sn by (simp add: X509IssuerSerial_element_def createElementNS_def)
  have r: "\<lparr>issuerName = issuerName iser, serialNumber = Some sn\<rparr> = iser"
    using sn by (cases iser) simp
  show ?thesis
    unfolding el using assms(1) sn IssuerName_neq_SerialNumber
    by (simp add: LoadXml_IssuerSerial_def GetChild_static_def AddIssuerSerial_def r)
qed

lemma LoadXml_SKI_element:
  assumes "b \<noteq> []"
  shows "LoadXml_SKI (X509SKI_element b) s = (None, s\<lparr>SubjectKeyIdList := [b]\<rparr>)"
  using assms
  by (simp add: LoadXml_SKI_def X509SKI_element_def set_textContent_created ToBase64_eq_Nil
      FromBase64_ToBase64 AddSubjectKeyId_RawBytes)

lemma LoadXml_SubjectName_element:
  assumes "t \<noteq> []"
  shows "LoadXml_SubjectName (X509SubjectName_element t) s =
     (None, s\<lparr>SubjectNameList := Some (allocated (SubjectNameList s) @ [t])\<rparr>)"
  using assms
  by (simp add: LoadXml_SubjectName_def X509SubjectName_element_def set_textContent_created
      AddSubjectName_def)

lemma LoadXml_Certificate_element:
  assumes "GetRawCertData c \<noteq> []"
  shows "LoadXml_Certificate (X509Certificate_element c) s =
     (None, s\<lparr>X509CertificateList := Some (allocated (X509CertificateList s) @ [c])\<rparr>)"
  using assms
  by (simp add: LoadXml_Certificate_def X509Certificate_element_def set_textContent_created
      ToBase64_eq_Nil FromBase64_ToBase64 AddCertificate_def)

lemma LoadXml_CRL_element_of:
  assumes "crl \<noteq> Some []"
  shows "LoadXml_CRL_of (map_option X509CRL_element crl) s =
     (None, s\<lparr>x509crl := (if crl = None then x509crl s else crl)\<rparr>)"
proof (cases crl)
  case None
  then show ?thesis by (simp add: LoadXml_CRL_of_def)
next
  case (Some b)
  then show ?thesis using assms
    by (simp add: LoadXml_CRL_of_def X509CRL_element_def set_textContent_created
        ToBase64_eq_Nil FromBase64_ToBase64)
qed

text \<open>The loops over the elements of a collection.\<close>

lemma appended_Nil: "appended l [] = l"
  by (simp add: appended_def)

lemma appended_Cons: "appended (Some (allocated l @ [x])) xs = appended l (x # xs)"
  by (simp add: appended_def allocated_simps)

lemma for_each_IssuerSerial_elements:
  assumes "list_all (\<lambda>i. issuerName i \<noteq> [] \<and> filled (serialNumber i)) l"
  shows "for_each (LoadXml_IssuerSerial strict) (map X509IssuerSerial_element l) s =
     (None, s\<lparr>IssuerSerialList := appended (IssuerSerialList s) l\<rparr>)"
  using assms
proof (induction l arbitrary: s)
  case Nil
  then show ?case by (simp add: appended_Nil)
next
  case (Cons x xs)
  then show ?case
    by (simp add: LoadXml_IssuerSerial_element appended_Cons)
qed

lemma for_each_SubjectName_elements:
  assumes "list_all (\<lambda>t. t \<noteq> []) l"
  shows "for_each LoadXml_SubjectName (map X509SubjectName_element l) s =
     (None, s\<lparr>SubjectNameList := appended (SubjectNameList s) l\<rparr>)"
  using assms
proof (induction l arbitrary: s)
  case Nil
  then show ?case by (simp add: appended_Nil)
next
  case (Cons x xs)
  then show ?case
    by (simp add: LoadXml_SubjectName_element appended_Cons)
qed

lemma for_each_Certificate_elements:
  assumes "list_all (\<lambda>c. GetRawCertData c \<noteq> []) l"
  shows "for_each LoadXml_Certificate (map X509Certificate_element l) s =
     (None, s\<lparr>X509CertificateList := appended (X509CertificateList s) l\<rparr>)"
  using assms
proof (induction l arbitrary: s)
  case Nil
  then show ?case by (simp add: appended_Nil)
next
  case (Cons x xs)
  then show ?case
    by (simp add: LoadXml_Certificate_element appended_Cons)
qed

lemma for_each_SKI_elements:
  assumes "list_all (\<lambda>b. b \<noteq> []) l"
  shows "for_each LoadXml_SKI (map X509SKI_element l) s =
     (None, s\<lparr>SubjectKeyIdList := (if l = [] then SubjectKeyIdList s else [last l])\<rparr>)"
  using assms
proof (induction l arbitrary: s)
  case Nil
  then show ?case by simp
next
  case (Cons x xs)
  then show ?case
    by (simp add: LoadXml_SKI_element)
qed

lemma LoadXml_children_GetXml:
  assumes "serializable s"
  shows "LoadXml_children strict (GetXml_children s) t =
     (None, t\<lparr>IssuerSerialList := appended (IssuerSerialList t) (allocated (IssuerSerialList s)),
              SubjectKeyIdList :=
                (if SubjectKeyIdList s = [] then SubjectKeyIdList t else [last (SubjectKeyIdList s)]),
              SubjectNameList := appended (SubjectNameList t) (allocated (SubjectNameList s)),
              X509CertificateList :=
                appended (X509CertificateList t) (allocated (X509CertificateList s)),
              x509crl := (if x509crl s = None then x509crl t else x509crl s)\<rparr>)"
  using assms
  unfolding LoadXml_children_def children_named_GetXml find_CRL_GetXml serializable_def
  by (simp add: and_then_def for_each_IssuerSerial_elements for_each_SKI_elements
      for_each_SubjectName_elements for_each_Certificate_elements LoadXml_CRL_element_of)

lemma appended_None: "l \<noteq> Some [] \<Longrightarrow> appended None (allocated l) = l"
  by (cases l) (simp_all add: appended_def allocated_simps)

lemma last_single: "length l \<le> Suc 0 \<Longrightarrow> l \<noteq> [] \<Longrightarrow> [last l] = l"
  by (cases l) simp_all

lemma LoadXml_GetXml:
  assumes "serializable s"
  shows "LoadXml strict (GetXml s) new_KeyInfoX509Data = (None, s\<lparr>element := Some (GetXml s)\<rparr>)"
proof -
  have v: "is_element_named X509Data_name NamespaceURI (GetXml s)" by (simp add: GetXml_eq)
  have c: "childNodes (GetXml s) = GetXml_children s" by (simp add: GetXml_eq)
  from assms have
    "IssuerSerialList s \<noteq> Some []" "length (SubjectKeyIdList s) \<le> 1"
    "SubjectNameList s \<noteq> Some []" "X509CertificateList s \<noteq> Some []"
    by (simp_all add: serializable_def)
  then show ?thesis
    unfolding LoadXml_valid [OF v] c LoadXml_children_GetXml [OF assms]
    by (cases s)
       (simp add: LoadXml_reset_def new_KeyInfoX509Data_def reset_guarded_def appended_None
        last_single split: option.splits)
qed


text \<open>
  C1 as amended. When no operation stores an empty value, \<^verbatim>\<open>GetXml\<close> of the populated
  instance followed by \<^verbatim>\<open>LoadXml\<close> on a new instance does not throw and gives an
  instance with the same certificates, issuer/serial pairs, subject key identifiers,
  subject names and CRL, each collection in the same order.
\<close>

theorem C1_round_trip:
  assumes "list_all stores_no_empty_value ops"
  shows "fst (LoadXml strict (GetXml (populated ops)) new_KeyInfoX509Data) = None \<and>
         Certificates (snd (LoadXml strict (GetXml (populated ops)) new_KeyInfoX509Data)) =
           Certificates (populated ops) \<and>
         IssuerSerials (snd (LoadXml strict (GetXml (populated ops)) new_KeyInfoX509Data)) =
           IssuerSerials (populated ops) \<and>
         SubjectKeyIds (snd (LoadXml strict (GetXml (populated ops)) new_KeyInfoX509Data)) =
           SubjectKeyIds (populated ops) \<and>
         SubjectNames (snd (LoadXml strict (GetXml (populated ops)) new_KeyInfoX509Data)) =
           SubjectNames (populated ops) \<and>
         CRL (snd (LoadXml strict (GetXml (populated ops)) new_KeyInfoX509Data)) =
           CRL (populated ops)"
  by (simp add: LoadXml_GetXml [OF serializable_populated [OF assms]] Certificates_def
      IssuerSerials_def SubjectKeyIds_def SubjectNames_def CRL_def)

lemma populated_interleaved_calls:
  "populated interleaved_calls =
     \<lparr>element = None, x509crl = Some [1, 2, 3],
      IssuerSerialList = Some [\<lparr>issuerName = str ''CN=a'', serialNumber = Some (str ''1'')\<rparr>,
                               \<lparr>issuerName = str ''CN=d'', serialNumber = Some (str ''2'')\<rparr>],
      SubjectKeyIdList = [[65, 66, 67]],
      SubjectNameList = Some [str ''CN=b'', str ''CN=c''],
      X509CertificateList = Some [X509Certificate [48, 130, 1], X509Certificate [48, 130, 2]]\<rparr>"
  by (simp add: populated_def interleaved_calls_def new_KeyInfoX509Data_def AddSubjectName_def
      AddIssuerSerial_def AddCertificate_def AddSubjectKeyId_QUJD AddSubjectKeyId_RawBytes
      set_CRL_def allocated_simps)

theorem C1_witness:
  "list_all stores_no_empty_value interleaved_calls \<and>
   fst (LoadXml False (GetXml (populated interleaved_calls)) new_KeyInfoX509Data) = None \<and>
   Certificates (snd (LoadXml False (GetXml (populated interleaved_calls)) new_KeyInfoX509Data)) =
     Some [X509Certificate [48, 130, 1], X509Certificate [48, 130, 2]] \<and>
   IssuerSerials (snd (LoadXml False (GetXml (populated interleaved_calls)) new_KeyInfoX509Data)) =
     Some [\<lparr>issuerName = str ''CN=a'', serialNumber = Some (str ''1'')\<rparr>,
           \<lparr>issuerName = str ''CN=d'', serialNumber = Some (str ''2'')\<rparr>] \<and>
   SubjectKeyIds (snd (LoadXml False (GetXml (populated interleaved_calls)) new_KeyInfoX509Data)) =
     [[65, 66, 67]] \<and>
   SubjectNames (snd (LoadXml False (GetXml (populated interleaved_calls)) new_KeyInfoX509Data)) =
     Some [str ''CN=b'', str ''CN=c''] \<and>
   CRL (snd (LoadXml False (GetXml (populated interleaved_calls)) new_KeyInfoX509Data)) =
     Some [1, 2, 3]"
proof -
  have h: "list_all stores_no_empty_value interleaved_calls"
    by (simp add: interleaved_calls_def filled_def str_def FromBase64_def b64_sextet_def
        b64_pad_def)
  have
    "Certificates (populated interleaved_calls) =
       Some [X509Certificate [48, 130, 1], X509Certificate [48, 130, 2]]"
    "IssuerSerials (populated interleaved_calls) =
       Some [\<lparr>issuerName = str ''CN=a'', serialNumber = Some (str ''1'')\<rparr>,
             \<lparr>issuerName = str ''CN=d'', serialNumber = Some (str ''2'')\<rparr>]"
    "SubjectKeyIds (populated interleaved_calls) = [[65, 66, 67]]"
    "SubjectNames (populated interleaved_calls) = Some [str ''CN=b'', str ''CN=c'']"
    "CRL (populated interleaved_calls) = Some [1, 2, 3]"
    by (simp_all add: populated_interleaved_calls Certificates_def IssuerSerials_def
        SubjectKeyIds_def SubjectNames_def CRL_def)
  with h C1_round_trip [OF h, of False] show ?thesis by simp
qed

text \<open>
  C1 as stated fails: after \<^verbatim>\<open>AddSubjectName("")\<close> the instance holds one subject
  name, the empty string; the instance parsed from its element holds none.
\<close>

theorem C1_counterexample:
  "SubjectNames (populated [Call_AddSubjectName []]) = Some [[]] \<and>
   SubjectNames (snd (LoadXml False (GetXml (populated [Call_AddSubjectName []]))
      new_KeyInfoX509Data)) = None"
proof -
  have p: "populated [Call_AddSubjectName []] = new_KeyInfoX509Data\<lparr>SubjectNameList := Some [[]]\<rparr>"
    by (simp add: populated_def AddSubjectName_def allocated_simps new_KeyInfoX509Data_def)
  have g: "GetXml (populated [Call_AddSubjectName []]) =
      Element NamespaceURI X509Data_name [Element NamespaceURI X509SubjectName_name []]"
    unfolding p
    by (simp add: GetXml_eq GetXml_children_def new_KeyInfoX509Data_def allocated_simps
        X509SubjectName_element_def set_textContent_created)
  show ?thesis
    unfolding g
    by (simp add: p SubjectNames_def new_KeyInfoX509Data_def LoadXml_def and_then_def
      XmlObject_LoadXml_def LoadXml_reset_def for_children_def GetChildren_def
      GetChildren_static_def LoadXml_CRL_def GetChild_def GetChild_static_def
      LoadXml_SubjectName_def reset_guarded_def names_neq)
qed


end
